theory Spec2Isabelle
  imports Main "HOL-Library.Sublist"
begin

section \<open>Python string operations used by build.py\<close>

text \<open>
  Python text is modelled as \<^typ>\<open>string\<close>: the UTF-8 encoding of the \<open>str\<close> value, one
  \<^typ>\<open>char\<close> per byte. The files are read and written with \<open>encoding='utf-8'\<close>, every
  token searched for by the script is ASCII, and UTF-8 is self-synchronising, so literal
  search, replacement and counting give the same result on the bytes as on the code points.
\<close>

text \<open>
  \<open>s.replace(old, new)\<close>: every non-overlapping occurrence of \<open>old\<close>, leftmost first, is
  replaced by \<open>new\<close>; the inserted text is not scanned again. For an empty \<open>old\<close> Python
  inserts \<open>new\<close> before every character and at the end.
\<close>

function str_replace :: "string \<Rightarrow> string \<Rightarrow> string \<Rightarrow> string" where
  "str_replace old new [] = (if old = [] then new else [])"
| "str_replace old new (c # cs) =
     (if old = [] then new @ c # str_replace old new cs
      else if prefix old (c # cs) then new @ str_replace old new (drop (length old) (c # cs))
      else c # str_replace old new cs)"
  by pat_completeness auto
termination
  by (relation "measure (\<lambda>(old, new, s). length s)") auto

text \<open>
  \<open>s.count(sub)\<close>: the number of non-overlapping occurrences of \<open>sub\<close>, leftmost first
  (\<open>len(s) + 1\<close> for an empty \<open>sub\<close>).
\<close>

function str_count :: "string \<Rightarrow> string \<Rightarrow> nat" where
  "str_count sub [] = (if sub = [] then 1 else 0)"
| "str_count sub (c # cs) =
     (if sub = [] then 1 + str_count sub cs
      else if prefix sub (c # cs) then 1 + str_count sub (drop (length sub) (c # cs))
      else str_count sub cs)"
  by pat_completeness auto
termination
  by (relation "measure (\<lambda>(sub, s). length s)") auto

text \<open>\<open>s * n\<close> on a string: \<open>n\<close> copies of \<open>s\<close>.\<close>

definition str_repeat :: "string \<Rightarrow> nat \<Rightarrow> string" where
  "str_repeat s n = concat (replicate n s)"

text \<open>\<open>sep.join(xs)\<close>.\<close>

fun str_join :: "string \<Rightarrow> string list \<Rightarrow> string" where
  "str_join sep [] = []"
| "str_join sep [x] = x"
| "str_join sep (x # y # ys) = x @ sep @ str_join sep (y # ys)"

text \<open>The decimal numeral an f-string prints for a non-negative \<open>int\<close>.\<close>

definition digit_char :: "nat \<Rightarrow> char" where
  "digit_char d = char_of (48 + d)"

function str_of_nat :: "nat \<Rightarrow> string" where
  "str_of_nat n =
     (if n < 10 then [digit_char n] else str_of_nat (n div 10) @ [digit_char (n mod 10)])"
  by pat_completeness auto
termination
  by (relation "measure id") auto

text \<open>
  Whitespace as \<open>str.strip()\<close> and the regular expression class \<open>\s\<close> see it (both test
  \<open>Py_UNICODE_ISSPACE\<close>): the code points U+0009-000D, U+001C-0020, U+0085, U+00A0, U+1680,
  U+2000-200A, U+2028, U+2029, U+202F, U+205F and U+3000. \<open>ws_len s\<close> is the number of
  bytes of the whitespace code point that \<open>s\<close> starts with, and 0 when it starts with none.
\<close>

definition ascii_space :: "char \<Rightarrow> bool" where
  "ascii_space c = (let n = (of_char c :: nat) in (9 \<le> n \<and> n \<le> 13) \<or> (28 \<le> n \<and> n \<le> 32))"

definition ws_len :: "string \<Rightarrow> nat" where
  "ws_len s =
     (case s of
        [] \<Rightarrow> 0
      | c # r \<Rightarrow>
          if ascii_space c then 1
          else if c = CHR 0xC2 then
            (case r of d # _ \<Rightarrow> if d = CHR 0x85 \<or> d = CHR 0xA0 then 2 else 0 | [] \<Rightarrow> 0)
          else if c = CHR 0xE1 then (if prefix [CHR 0x9A, CHR 0x80] r then 3 else 0)
          else if c = CHR 0xE2 then
            (case r of
               d # e # _ \<Rightarrow>
                 if d = CHR 0x80 \<and>
                    ((0x80 \<le> (of_char e :: nat) \<and> (of_char e :: nat) \<le> 0x8A)
                      \<or> e = CHR 0xA8 \<or> e = CHR 0xA9 \<or> e = CHR 0xAF)
                   \<or> d = CHR 0x81 \<and> e = CHR 0x9F
                 then 3 else 0
             | _ \<Rightarrow> 0)
          else if c = CHR 0xE3 then (if prefix [CHR 0x80, CHR 0x80] r then 3 else 0)
          else 0)"

text \<open>The number of bytes of the whitespace code point that \<open>s\<close> ends with (0 for none).\<close>

definition ws_tail :: "string \<Rightarrow> nat" where
  "ws_tail s =
     (if 1 \<le> length s \<and> ws_len (drop (length s - 1) s) = 1 then 1
      else if 2 \<le> length s \<and> ws_len (drop (length s - 2) s) = 2 then 2
      else if 3 \<le> length s \<and> ws_len (drop (length s - 3) s) = 3 then 3
      else 0)"

function str_lstrip :: "string \<Rightarrow> string" where
  "str_lstrip s = (if ws_len s = 0 \<or> length s < ws_len s then s else str_lstrip (drop (ws_len s) s))"
  by pat_completeness auto
termination
  by (relation "measure length") auto

function str_rstrip :: "string \<Rightarrow> string" where
  "str_rstrip s = (if ws_tail s = 0 \<or> length s < ws_tail s then s else str_rstrip (take (length s - ws_tail s) s))"
  by pat_completeness auto
termination
  by (relation "measure length") auto

text \<open>\<open>s.strip()\<close>.\<close>

definition str_strip :: "string \<Rightarrow> string" where
  "str_strip s = str_rstrip (str_lstrip s)"

text \<open>\<open>s.find(sub)\<close> as an option: the offset of the first occurrence of \<open>sub\<close> in \<open>s\<close>.\<close>

fun find_sub :: "string \<Rightarrow> string \<Rightarrow> nat option" where
  "find_sub sub [] = (if sub = [] then Some 0 else None)"
| "find_sub sub (c # cs) =
     (if prefix sub (c # cs) then Some 0 else map_option Suc (find_sub sub cs))"

section \<open>Errors\<close>

text \<open>
  The exceptions the script can raise and never catches: a dictionary access
  \<open>item["title"]\<close> on an item without that key, a failing \<open>open\<close>/\<open>read\<close> of a source
  file, and a failing creation or write of an output file.
\<close>

datatype error = KeyError string | ReadError string | WriteError string

section \<open>The navigation structure\<close>

text \<open>
  A navigation item is a Python dictionary with the optional keys \<open>"title"\<close>, \<open>"path"\<close>
  and \<open>"children"\<close>; a field is \<open>None\<close> when the dictionary has no such key.
\<close>

datatype nav_item =
  NavItem (title: "string option") (path: "string option") (children: "nav_item list option")

text \<open>The two shapes of dictionary literal that occur in \<open>NAV_STRUCTURE\<close>.\<close>

definition page :: "string \<Rightarrow> string \<Rightarrow> nav_item" where
  "page t p = NavItem (Some t) (Some p) None"

definition folder :: "string \<Rightarrow> nav_item list \<Rightarrow> nav_item" where
  "folder t cs = NavItem (Some t) None (Some cs)"

definition NAV_STRUCTURE :: "nav_item list" where
  \<open>NAV_STRUCTURE = [
    page ''Home'' ''index.md'',
    page ''Getting Started'' ''getting-started.md'',
    folder ''Architecture''
      [
        page ''Overview'' ''architecture/overview.md'',
        page ''State Management'' ''architecture/state-management.md'',
        page ''Camera Pipeline'' ''architecture/camera-pipeline.md'',
        page ''Metadata & SQLite'' ''architecture/metadata-sqlite.md'',
        folder ''Decisions''
          [
            page ''ADR-0001 Nim Language'' ''architecture/decisions/ADR-0001-nim-language.md'',
            page ''ADR-0002 Corun Framework'' ''architecture/decisions/ADR-0002-corun-framework.md'',
            page ''ADR-0003 Observable State'' ''architecture/decisions/ADR-0003-observable-state.md''
          ]
      ],
    folder ''API Reference''
      [
        page ''Overview'' ''api/README.md'',
        page ''WebSocket API'' ''api/websocket-api.md'',
        page ''HTTP API'' ''api/http-api.md'',
        page ''RTSP Streaming'' ''api/rtsp-streaming.md'',
        folder ''Examples''
          [
            page ''Python Client'' ''api/examples/python-client.md'',
            page ''JavaScript Client'' ''api/examples/javascript-client.md'',
            page ''C# Client'' ''api/examples/csharp-client.md''
          ]
      ],
    folder ''Configuration''
      [
        page ''Environments'' ''configuration/environments.md'',
        page ''Factory Config'' ''configuration/factory-config.md'',
        page ''License Config'' ''configuration/license-config.md'',
        page ''Deployment Variants'' ''configuration/deployment-variants.md'',
        page ''Camera System'' ''configuration/camera-system.md'',
        page ''Network'' ''configuration/network.md'',
        page ''Storage & Backup'' ''configuration/storage-backup.md'',
        page ''Authentication'' ''configuration/authentication.md''
      ],
    folder ''Camera System''
      [
        page ''Hardware Interface'' ''camera/hardware-interface.md'',
        page ''Streaming'' ''camera/streaming.md'',
        page ''Recording'' ''camera/recording.md'',
        page ''Image Processing'' ''camera/image-processing.md''
      ],
    folder ''Operations''
      [
        page ''Build and Deploy'' ''operations/build-and-deploy.md'',
        page ''Build & Deploy (Alt)'' ''operations/build-deploy.md'',
        page ''Monitoring'' ''operations/monitoring.md'',
        page ''Performance'' ''operations/performance.md'',
        page ''Troubleshooting'' ''operations/troubleshooting.md''
      ],
    folder ''Security''
      [
        page ''Authentication'' ''security/authentication.md'',
        page ''Permissions'' ''security/permissions.md'',
        page ''SSL Certificates'' ''security/ssl-certificates.md''
      ],
    folder ''Testing''
      [
        page ''Strategy'' ''testing/testing-strategy.md'',
        page ''Strategies'' ''testing/strategies.md'',
        page ''Test Cases'' ''testing/test-cases.md'',
        page ''Validation'' ''testing/validation.md''
      ],
    folder ''Integration''
      [
        page ''ONVIF Protocol'' ''integration/onvif-protocol.md'',
        page ''Third Party'' ''integration/third-party.md''
      ],
    folder ''Reference''
      [
        page ''Glossary'' ''reference/glossary.md'',
        page ''Requirements'' ''reference/requirements.md'',
        page ''State Observables'' ''reference/state-observables.md''
      ],
    folder ''Releases''
      [
        page ''Changelog'' ''releases/CHANGELOG.md''
      ],
    page ''Glossary'' ''glossary.md''
  ]\<close>

section \<open>generate_nav_html (lines 127-148)\<close>

text \<open>
  \<open>nav_loop\<close> is the \<open>for\<close> loop that fills the list \<open>html\<close>, \<open>nav_item_html\<close> the
  strings one iteration appends. A folder appends the rendering of its children as a single
  string; a page (every item without \<open>"children"\<close>) reads its path with
  \<open>item.get("path", "")\<close>. \<open>item["title"]\<close> raises \<open>KeyError\<close> when the key is absent.
\<close>

fun generate_nav_html :: "nav_item list \<Rightarrow> string \<Rightarrow> nat \<Rightarrow> string \<Rightarrow> error + string"
  and nav_loop :: "nav_item list \<Rightarrow> string \<Rightarrow> nat \<Rightarrow> string \<Rightarrow> error + string list"
  and nav_item_html :: "nav_item \<Rightarrow> string \<Rightarrow> nat \<Rightarrow> string \<Rightarrow> error + string list"
where
  \<open>generate_nav_html nav_items current_path depth base_path =
     (case nav_loop nav_items current_path depth base_path of
        Inl e \<Rightarrow> Inl e
      | Inr html \<Rightarrow> Inr (str_join ''\<newline>'' html))\<close>
| \<open>nav_loop [] current_path depth base_path = Inr []\<close>
| \<open>nav_loop (item # items) current_path depth base_path =
     (case nav_item_html item current_path depth base_path of
        Inl e \<Rightarrow> Inl e
      | Inr h \<Rightarrow>
          (case nav_loop items current_path depth base_path of
             Inl e \<Rightarrow> Inl e
           | Inr hs \<Rightarrow> Inr (h @ hs)))\<close>
| \<open>nav_item_html (NavItem t p (Some cs)) current_path depth base_path =
     (case t of
        None \<Rightarrow> Inl (KeyError ''title'')
      | Some ttl \<Rightarrow>
          (case generate_nav_html cs current_path (depth + 1) base_path of
             Inl e \<Rightarrow> Inl e
           | Inr sub \<Rightarrow>
               Inr [''<li class="nav-folder depth-'' @ str_of_nat depth @ ''">'',
                    ''<span class="folder-title">'' @ ttl @ ''</span>'',
                    ''<ul class="nav-submenu">'',
                    sub,
                    ''</ul>'',
                    ''</li>'']))\<close>
| \<open>nav_item_html (NavItem t p None) current_path depth base_path =
     (let path = (case p of None \<Rightarrow> [] | Some x \<Rightarrow> x);
          html_path = str_replace ''.md'' ''.html'' path;
          is_active = (html_path = current_path);
          active_class = (if is_active then '' active'' else [])
      in case t of
           None \<Rightarrow> Inl (KeyError ''title'')
         | Some ttl \<Rightarrow>
             Inr [''<li class="nav-item depth-'' @ str_of_nat depth @ active_class @ ''">'',
                  ''<a href="'' @ base_path @ html_path @ ''">'' @ ttl @ ''</a>'',
                  ''</li>''])\<close>

section \<open>get_html_template (lines 151-232)\<close>

definition get_html_template :: string where
  \<open>get_html_template =
     ''<!DOCTYPE html>\<newline>'' @
     ''<html lang="en">\<newline>'' @
     ''<head>\<newline>'' @
     ''    <meta charset="UTF-8">\<newline>'' @
     ''    <meta name="viewport" content="width=device-width, initial-scale=1.0">\<newline>'' @
     ''    <title>{{TITLE}} - C Pro Camera Server Documentation</title>\<newline>'' @
     ''    <link rel="stylesheet" href="{{BASE_PATH}}assets/style.css">\<newline>'' @
     ''    <link rel="stylesheet" href="https://cdnjs.cloudflare.com/ajax/libs/highlight.js/11.9.0/styles/github-dark.min.css">\<newline>'' @
     ''    <script src="https://cdn.jsdelivr.net/npm/mermaid@10/dist/mermaid.min.js"></script>\<newline>'' @
     ''</head>\<newline>'' @
     ''<body>\<newline>'' @
     ''    <div class="container">\<newline>'' @
     ''        <aside class="sidebar">\<newline>'' @
     ''            <div class="sidebar-header">\<newline>'' @
     ''                <h1><a href="{{BASE_PATH}}index.html">C Pro Docs</a></h1>\<newline>'' @
     ''                <p>Camera Server Documentation</p>\<newline>'' @
     ''            </div>\<newline>'' @
     ''            <nav class="sidebar-nav">\<newline>'' @
     ''                <ul class="nav-menu">\<newline>'' @
     ''                    {{NAVIGATION}}\<newline>'' @
     ''                </ul>\<newline>'' @
     ''            </nav>\<newline>'' @
     ''        </aside>\<newline>'' @
     ''        \<newline>'' @
     ''        <main class="content">\<newline>'' @
     ''            <div class="content-wrapper">\<newline>'' @
     ''                {{CONTENT}}\<newline>'' @
     ''            </div>\<newline>'' @
     ''            <footer class="content-footer">\<newline>'' @
     ''                <p>Copyright '' @ [CHR 0xC2, CHR 0xA9] @ '' 2025 Rotoclear</p>\<newline>'' @
     ''            </footer>\<newline>'' @
     ''        </main>\<newline>'' @
     ''        \<newline>'' @
     ''        <button class="mobile-menu-toggle" id="menuToggle" aria-label="Toggle menu">'' @ [CHR 0xE2, CHR 0x98, CHR 0xB0] @ ''</button>\<newline>'' @
     ''    </div>\<newline>'' @
     ''    \<newline>'' @
     ''    <script src="https://cdnjs.cloudflare.com/ajax/libs/highlight.js/11.9.0/highlight.min.js"></script>\<newline>'' @
     ''    <script>\<newline>'' @
     ''        // Initialize Mermaid\<newline>'' @
     ''        mermaid.initialize({ \<newline>'' @
     ''            startOnLoad: true,\<newline>'' @
     ''            theme: 'default',\<newline>'' @
     ''            securityLevel: 'loose',\<newline>'' @
     ''            fontFamily: 'Inter, sans-serif'\<newline>'' @
     ''        });\<newline>'' @
     ''        \<newline>'' @
     ''        // Syntax highlighting\<newline>'' @
     ''        hljs.highlightAll();\<newline>'' @
     ''        \<newline>'' @
     ''        // Mobile menu toggle\<newline>'' @
     ''        const menuToggle = document.getElementById('menuToggle');\<newline>'' @
     ''        const sidebar = document.querySelector('.sidebar');\<newline>'' @
     ''        \<newline>'' @
     ''        menuToggle.addEventListener('click', () => {\<newline>'' @
     ''            sidebar.classList.toggle('active');\<newline>'' @
     ''        });\<newline>'' @
     ''        \<newline>'' @
     ''        // Close sidebar when clicking outside on mobile\<newline>'' @
     ''        document.addEventListener('click', (e) => {\<newline>'' @
     ''            if (window.innerWidth <= 768 && \<newline>'' @
     ''                !sidebar.contains(e.target) && \<newline>'' @
     ''                !menuToggle.contains(e.target) &&\<newline>'' @
     ''                sidebar.classList.contains('active')) {\<newline>'' @
     ''                sidebar.classList.remove('active');\<newline>'' @
     ''            }\<newline>'' @
     ''        });\<newline>'' @
     ''        \<newline>'' @
     ''        // Smooth scroll for anchor links\<newline>'' @
     ''        document.querySelectorAll('a[href^="#"]').forEach(anchor => {\<newline>'' @
     ''            anchor.addEventListener('click', function (e) {\<newline>'' @
     ''                e.preventDefault();\<newline>'' @
     ''                const target = document.querySelector(this.getAttribute('href'));\<newline>'' @
     ''                if (target) {\<newline>'' @
     ''                    target.scrollIntoView({ behavior: 'smooth' });\<newline>'' @
     ''                }\<newline>'' @
     ''            });\<newline>'' @
     ''        });\<newline>'' @
     ''    </script>\<newline>'' @
     ''</body>\<newline>'' @
     ''</html>''\<close>

text \<open>The text of the template between its placeholder tokens.\<close>

definition shell_head :: string where
  \<open>shell_head =
     ''<!DOCTYPE html>\<newline>'' @
     ''<html lang="en">\<newline>'' @
     ''<head>\<newline>'' @
     ''    <meta charset="UTF-8">\<newline>'' @
     ''    <meta name="viewport" content="width=device-width, initial-scale=1.0">\<newline>'' @
     ''    <title>''\<close>

definition shell_after_title :: string where
  \<open>shell_after_title =
     '' - C Pro Camera Server Documentation</title>\<newline>'' @
     ''    <link rel="stylesheet" href="''\<close>

definition shell_after_css :: string where
  \<open>shell_after_css =
     ''assets/style.css">\<newline>'' @
     ''    <link rel="stylesheet" href="https://cdnjs.cloudflare.com/ajax/libs/highlight.js/11.9.0/styles/github-dark.min.css">\<newline>'' @
     ''    <script src="https://cdn.jsdelivr.net/npm/mermaid@10/dist/mermaid.min.js"></script>\<newline>'' @
     ''</head>\<newline>'' @
     ''<body>\<newline>'' @
     ''    <div class="container">\<newline>'' @
     ''        <aside class="sidebar">\<newline>'' @
     ''            <div class="sidebar-header">\<newline>'' @
     ''                <h1><a href="''\<close>

definition shell_after_home :: string where
  \<open>shell_after_home =
     ''index.html">C Pro Docs</a></h1>\<newline>'' @
     ''                <p>Camera Server Documentation</p>\<newline>'' @
     ''            </div>\<newline>'' @
     ''            <nav class="sidebar-nav">\<newline>'' @
     ''                <ul class="nav-menu">\<newline>'' @
     ''                    ''\<close>

definition shell_after_nav :: string where
  \<open>shell_after_nav =
     ''\<newline>'' @
     ''                </ul>\<newline>'' @
     ''            </nav>\<newline>'' @
     ''        </aside>\<newline>'' @
     ''        \<newline>'' @
     ''        <main class="content">\<newline>'' @
     ''            <div class="content-wrapper">\<newline>'' @
     ''                ''\<close>

definition shell_tail :: string where
  \<open>shell_tail =
     ''\<newline>'' @
     ''            </div>\<newline>'' @
     ''            <footer class="content-footer">\<newline>'' @
     ''                <p>Copyright '' @ [CHR 0xC2, CHR 0xA9] @ '' 2025 Rotoclear</p>\<newline>'' @
     ''            </footer>\<newline>'' @
     ''        </main>\<newline>'' @
     ''        \<newline>'' @
     ''        <button class="mobile-menu-toggle" id="menuToggle" aria-label="Toggle menu">'' @ [CHR 0xE2, CHR 0x98, CHR 0xB0] @ ''</button>\<newline>'' @
     ''    </div>\<newline>'' @
     ''    \<newline>'' @
     ''    <script src="https://cdnjs.cloudflare.com/ajax/libs/highlight.js/11.9.0/highlight.min.js"></script>\<newline>'' @
     ''    <script>\<newline>'' @
     ''        // Initialize Mermaid\<newline>'' @
     ''        mermaid.initialize({ \<newline>'' @
     ''            startOnLoad: true,\<newline>'' @
     ''            theme: 'default',\<newline>'' @
     ''            securityLevel: 'loose',\<newline>'' @
     ''            fontFamily: 'Inter, sans-serif'\<newline>'' @
     ''        });\<newline>'' @
     ''        \<newline>'' @
     ''        // Syntax highlighting\<newline>'' @
     ''        hljs.highlightAll();\<newline>'' @
     ''        \<newline>'' @
     ''        // Mobile menu toggle\<newline>'' @
     ''        const menuToggle = document.getElementById('menuToggle');\<newline>'' @
     ''        const sidebar = document.querySelector('.sidebar');\<newline>'' @
     ''        \<newline>'' @
     ''        menuToggle.addEventListener('click', () => {\<newline>'' @
     ''            sidebar.classList.toggle('active');\<newline>'' @
     ''        });\<newline>'' @
     ''        \<newline>'' @
     ''        // Close sidebar when clicking outside on mobile\<newline>'' @
     ''        document.addEventListener('click', (e) => {\<newline>'' @
     ''            if (window.innerWidth <= 768 && \<newline>'' @
     ''                !sidebar.contains(e.target) && \<newline>'' @
     ''                !menuToggle.contains(e.target) &&\<newline>'' @
     ''                sidebar.classList.contains('active')) {\<newline>'' @
     ''                sidebar.classList.remove('active');\<newline>'' @
     ''            }\<newline>'' @
     ''        });\<newline>'' @
     ''        \<newline>'' @
     ''        // Smooth scroll for anchor links\<newline>'' @
     ''        document.querySelectorAll('a[href^="#"]').forEach(anchor => {\<newline>'' @
     ''            anchor.addEventListener('click', function (e) {\<newline>'' @
     ''                e.preventDefault();\<newline>'' @
     ''                const target = document.querySelector(this.getAttribute('href'));\<newline>'' @
     ''                if (target) {\<newline>'' @
     ''                    target.scrollIntoView({ behavior: 'smooth' });\<newline>'' @
     ''                }\<newline>'' @
     ''            });\<newline>'' @
     ''        });\<newline>'' @
     ''    </script>\<newline>'' @
     ''</body>\<newline>'' @
     ''</html>''\<close>

section \<open>convert_md_to_html (lines 235-257)\<close>

text \<open>
  The pre-pass is \<open>re.sub(r'```mermaid\s*\n(.*?)\n```', replace_mermaid, md_content,
  flags=re.DOTALL)\<close>. At a position where the literal \<open>```mermaid\<close> stands, the greedy
  \<open>\s*\<close> takes a run of whitespace and gives it back one code point at a time until the
  next character is a line feed; the lazy group then ends at the first \<open>\n```\<close>.
  \<open>nl_candidates s\<close> lists the offsets of the line feeds inside the whitespace run that
  \<open>s\<close> starts with, in increasing order; the regular expression engine tries them from
  the last to the first.
\<close>

function nl_candidates :: "string \<Rightarrow> nat list" where
  "nl_candidates s =
     (if ws_len s = 0 \<or> length s < ws_len s then []
      else (if hd s = CHR 0x0A then [0] else [])
           @ map (\<lambda>j. j + ws_len s) (nl_candidates (drop (ws_len s) s)))"
  by pat_completeness auto
termination
  by (relation "measure length") auto

text \<open>
  \<open>try_candidates js s\<close>: the first offset \<open>j\<close> of \<open>js\<close> after whose line feed a closing
  \<open>\n```\<close> is found gives the match: the captured group and the number of bytes of \<open>s\<close>
  the match covers.
\<close>

fun try_candidates :: "nat list \<Rightarrow> string \<Rightarrow> (string \<times> nat) option" where
  "try_candidates [] s = None"
| \<open>try_candidates (j # js) s =
     (case find_sub ''\<newline>```'' (drop (Suc j) s) of
        Some m \<Rightarrow> Some (take m (drop (Suc j) s), Suc j + m + 4)
      | None \<Rightarrow> try_candidates js s)\<close>

text \<open>
  A match of the whole pattern at the start of \<open>s\<close>: the captured group and the number of
  bytes after the first one that the match covers.
\<close>

definition match_mermaid :: "string \<Rightarrow> (string \<times> nat) option" where
  \<open>match_mermaid s =
     (if prefix ''```mermaid'' s
      then (let r = drop 10 s
            in case try_candidates (rev (nl_candidates r)) r of
                 None \<Rightarrow> None
               | Some (body, n) \<Rightarrow> Some (body, 9 + n))
      else None)\<close>

text \<open>\<open>replace_mermaid\<close> (lines 241-243).\<close>

definition replace_mermaid :: "string \<Rightarrow> string" where
  \<open>replace_mermaid group1 =
     (let mermaid_code = str_strip group1
      in ''<div class="mermaid">\<newline>'' @ mermaid_code @ ''\<newline></div>'')\<close>

text \<open>\<open>re.sub\<close>: matches are replaced from left to right, the text between them is kept.\<close>

function mermaid_sub :: "string \<Rightarrow> string" where
  "mermaid_sub [] = []"
| "mermaid_sub (c # cs) =
     (case match_mermaid (c # cs) of
        Some (body, n) \<Rightarrow> replace_mermaid body @ mermaid_sub (drop n cs)
      | None \<Rightarrow> c # mermaid_sub cs)"
  by pat_completeness auto
termination
  by (relation "measure length") auto

text \<open>
  The Markdown library is not part of the repository: \<open>md_convert\<close> stands for
  \<open>markdown.Markdown(extensions=[...]).convert\<close>.
\<close>

definition convert_md_to_html :: "(string \<Rightarrow> string) \<Rightarrow> string \<Rightarrow> string" where
  "convert_md_to_html md_convert md_content = md_convert (mermaid_sub md_content)"

section \<open>build_site (lines 260-333)\<close>

text \<open>
  What the script sees of its surroundings. A source file is looked up by the \<open>"path"\<close>
  string of its navigation item (below \<open>docs/\<close>). An output file is the file that
  \<open>output_dir / p\<close> names: \<open>pathlib\<close> and the file system decide which file that is
  (\<open>a.html\<close>, \<open>./a.html\<close> and \<open>x//../a.html\<close> can be one file), so the script's view of
  it is the function \<open>output_file\<close>, and the files of the output directory are told apart
  by its results. The source tree is not changed while the script runs.
\<close>

record env =
  path_exists :: "string \<Rightarrow> bool"  \<comment> \<open>\<open>(docs_dir / p).exists()\<close>\<close>
  read_text :: "string \<Rightarrow> string option"  \<comment> \<open>\<open>open(docs_dir / p).read()\<close>, \<open>None\<close> when it raises\<close>
  markdown :: "string \<Rightarrow> string"  \<comment> \<open>the Markdown library's \<open>convert\<close>\<close>
  output_file :: "string \<Rightarrow> string"  \<comment> \<open>the file that \<open>output_dir / p\<close> names\<close>
  write_fails :: "(string \<rightharpoonup> string) \<Rightarrow> string \<Rightarrow> bool"
    \<comment> \<open>whether creating the parent directories or writing the output file raises,
        given the files present\<close>
  assets :: "(string \<times> string) list option"
    \<comment> \<open>the files below \<open>docs/assets\<close>, \<open>None\<close> when that directory does not exist\<close>
  show_md_path :: "string \<Rightarrow> string"  \<comment> \<open>\<open>str(docs_dir / p)\<close>\<close>
  abs_output_dir :: string  \<comment> \<open>\<open>str(output_dir.absolute())\<close>\<close>

text \<open>
  The state the script changes: the output files with their text, the list
  \<open>processed_files\<close>, and the lines printed.
\<close>

record build_state =
  site :: "string \<rightharpoonup> string"
  processed_files :: "string list"
  stdout :: "string list"

text \<open>The four \<open>replace\<close> calls of \<open>process_file\<close> (lines 316-319).\<close>

definition fill_template :: "string \<Rightarrow> string \<Rightarrow> string \<Rightarrow> string \<Rightarrow> string \<Rightarrow> string" where
  \<open>fill_template template ttl base_path nav_html html_content =
     (let page_html = str_replace ''{{TITLE}}'' ttl template;
          page_html = str_replace ''{{BASE_PATH}}'' base_path page_html;
          page_html = str_replace ''{{NAVIGATION}}'' nav_html page_html;
          page_html = str_replace ''{{CONTENT}}'' html_content page_html
      in page_html)\<close>

text \<open>
  \<open>depth = html_path.count('/')\<close>, \<open>base_path = '../' * depth if depth > 0 else './'\<close>
  (lines 302-303).
\<close>

definition base_path_of :: "string \<Rightarrow> string" where
  "base_path_of html_path =
     (let depth = str_count ''/'' html_path
      in if depth > 0 then str_repeat ''../'' depth else ''./'')"

text \<open>
  \<open>process_file\<close> (lines 297-326); \<open>nav\<close> is the global \<open>NAV_STRUCTURE\<close>, \<open>md_path\<close> the
  item's path below \<open>docs/\<close>.
\<close>

definition process_file ::
  "env \<Rightarrow> nav_item list \<Rightarrow> build_state \<Rightarrow> string \<Rightarrow> string \<Rightarrow> string \<Rightarrow> error + build_state" where
  \<open>process_file ev nav st md_path html_path ttl =
     (let st1 = st\<lparr>stdout := stdout st @
                  [''Processing: '' @ show_md_path ev md_path @ '' -> '' @ html_path]\<rparr>;
          base_path = base_path_of html_path
      in case read_text ev md_path of
           None \<Rightarrow> Inl (ReadError md_path)
         | Some md_content \<Rightarrow>
             (let html_content = convert_md_to_html (markdown ev) md_content
              in case generate_nav_html nav html_path 0 base_path of
                   Inl e \<Rightarrow> Inl e
                 | Inr nav_html \<Rightarrow>
                     (let page_html =
                        fill_template get_html_template ttl base_path nav_html html_content;
                          output_path = output_file ev html_path
                      in if write_fails ev (site st1) output_path
                         then Inl (WriteError output_path)
                         else Inr (st1\<lparr>site := (site st1)(output_path \<mapsto> page_html)\<rparr>))))\<close>

text \<open>
  \<open>process_nav_item\<close> (lines 285-295); \<open>process_nav_items\<close> is the loop over the children
  of a folder and over the top level of the navigation structure (lines 329-330).
\<close>

fun process_nav_item :: "env \<Rightarrow> nav_item list \<Rightarrow> nav_item \<Rightarrow> build_state \<Rightarrow> error + build_state"
  and process_nav_items :: "env \<Rightarrow> nav_item list \<Rightarrow> nav_item list \<Rightarrow> build_state \<Rightarrow> error + build_state"
where
  \<open>process_nav_item ev nav (NavItem t p (Some cs)) st = process_nav_items ev nav cs st\<close>
| \<open>process_nav_item ev nav (NavItem t (Some pth) None) st =
     (if path_exists ev pth then
        (let html_path = str_replace ''.md'' ''.html'' pth
         in case t of
              None \<Rightarrow> Inl (KeyError ''title'')
            | Some ttl \<Rightarrow>
                (case process_file ev nav st pth html_path ttl of
                   Inl e \<Rightarrow> Inl e
                 | Inr st' \<Rightarrow> Inr (st'\<lparr>processed_files := processed_files st' @ [pth]\<rparr>)))
      else Inr st)\<close>
| \<open>process_nav_item ev nav (NavItem t None None) st = Inr st\<close>
| \<open>process_nav_items ev nav [] st = Inr st\<close>
| \<open>process_nav_items ev nav (item # items) st =
     (case process_nav_item ev nav item st of
        Inl e \<Rightarrow> Inl e
      | Inr st' \<Rightarrow> process_nav_items ev nav items st')\<close>

text \<open>\<open>(output_dir / ".nojekyll").touch()\<close>: an existing file keeps its text.\<close>

definition touch :: "env \<Rightarrow> (string \<rightharpoonup> string) \<Rightarrow> string \<Rightarrow> error + (string \<rightharpoonup> string)" where
  "touch ev files name =
     (if write_fails ev files name then Inl (WriteError name)
      else Inr (case files name of None \<Rightarrow> files(name \<mapsto> []) | Some _ \<Rightarrow> files))"

text \<open>\<open>shutil.copytree(assets_src, assets_dst, dirs_exist_ok=True)\<close>.\<close>

fun copytree :: "env \<Rightarrow> (string \<times> string) list \<Rightarrow> (string \<rightharpoonup> string) \<Rightarrow> error + (string \<rightharpoonup> string)" where
  "copytree ev [] files = Inr files"
| "copytree ev ((name, bytes) # rest) files =
     (let dst = output_file ev (''assets/'' @ name)
      in if write_fails ev files dst then Inl (WriteError dst)
         else copytree ev rest (files(dst \<mapsto> bytes)))"

text \<open>
  \<open>build_site\<close>, started on an output directory that holds \<open>files\<close>; \<open>nav\<close> is the global
  \<open>NAV_STRUCTURE\<close>.
\<close>

definition build_site :: "env \<Rightarrow> nav_item list \<Rightarrow> (string \<rightharpoonup> string) \<Rightarrow> error + build_state" where
  \<open>build_site ev nav files =
     (case touch ev files (output_file ev ''.nojekyll'') of
        Inl e \<Rightarrow> Inl e
      | Inr files1 \<Rightarrow>
          (case (case assets ev of None \<Rightarrow> Inr files1 | Some fs \<Rightarrow> copytree ev fs files1) of
             Inl e \<Rightarrow> Inl e
           | Inr files2 \<Rightarrow>
               (case process_nav_items ev nav nav
                       \<lparr>site = files2, processed_files = [], stdout = []\<rparr> of
                  Inl e \<Rightarrow> Inl e
                | Inr st \<Rightarrow>
                    Inr (st\<lparr>stdout := stdout st @
                           [''\<newline>Build complete! Processed ''
                              @ str_of_nat (length (processed_files st)) @ '' files.'',
                            ''Output directory: '' @ abs_output_dir ev]\<rparr>))))\<close>

section \<open>Notions used in the statements\<close>

text \<open>The number a string of decimal digits denotes.\<close>

definition digits_value :: "string \<Rightarrow> nat" where
  "digits_value s = foldl (\<lambda>a c. 10 * a + (of_char c - 48)) 0 s"

text \<open>
  The Page nodes of a navigation tree, across all nesting levels and in traversal order:
  the items without \<open>"children"\<close> that carry a \<open>"path"\<close>, each with its title (if any).
\<close>

fun page_nodes :: "nav_item list \<Rightarrow> (string option \<times> string) list" where
  "page_nodes [] = []"
| "page_nodes (NavItem t p (Some cs) # items) = page_nodes cs @ page_nodes items"
| "page_nodes (NavItem t (Some pth) None # items) = (t, pth) # page_nodes items"
| "page_nodes (NavItem t None None # items) = page_nodes items"

text \<open>The output path of a page: \<open>path.replace(".md", ".html")\<close> (lines 142 and 293).\<close>

definition html_path_of :: "string \<Rightarrow> string" where
  "html_path_of p = str_replace ''.md'' ''.html'' p"

text \<open>The Page nodes whose source file exists.\<close>

definition existing_pages :: "env \<Rightarrow> nav_item list \<Rightarrow> (string option \<times> string) list" where
  "existing_pages ev items = filter (\<lambda>tp. path_exists ev (snd tp)) (page_nodes items)"

text \<open>
  The text \<open>process_file\<close> computes for a page before it writes it; it does not depend on
  the state of the output directory.
\<close>

definition render_page :: "env \<Rightarrow> nav_item list \<Rightarrow> string \<Rightarrow> string \<Rightarrow> string \<Rightarrow> error + string" where
  "render_page ev nav md_path html_path ttl =
     (case read_text ev md_path of
        None \<Rightarrow> Inl (ReadError md_path)
      | Some md_content \<Rightarrow>
          (case generate_nav_html nav html_path 0 (base_path_of html_path) of
             Inl e \<Rightarrow> Inl e
           | Inr nav_html \<Rightarrow>
               Inr (fill_template get_html_template ttl (base_path_of html_path) nav_html
                      (convert_md_to_html (markdown ev) md_content))))"

text \<open>The line \<open>process_file\<close> prints for a page.\<close>

definition progress_line :: "env \<Rightarrow> string \<Rightarrow> string" where
  "progress_line ev p = ''Processing: '' @ show_md_path ev p @ '' -> '' @ html_path_of p"

text \<open>
  What the traversal does for one Page node whose source file exists, and for a list of
  them in order.
\<close>

definition page_step :: "env \<Rightarrow> nav_item list \<Rightarrow> string option \<times> string \<Rightarrow> build_state \<Rightarrow> error + build_state" where
  "page_step ev nav tp st =
     (case fst tp of
        None \<Rightarrow> Inl (KeyError ''title'')
      | Some ttl \<Rightarrow>
          (case render_page ev nav (snd tp) (html_path_of (snd tp)) ttl of
             Inl e \<Rightarrow> Inl e
           | Inr txt \<Rightarrow>
               if write_fails ev (site st) (output_file ev (html_path_of (snd tp)))
               then Inl (WriteError (output_file ev (html_path_of (snd tp))))
               else Inr \<lparr>site = (site st)(output_file ev (html_path_of (snd tp)) \<mapsto> txt),
                         processed_files = processed_files st @ [snd tp],
                         stdout = stdout st @ [progress_line ev (snd tp)]\<rparr>))"

fun run_pages :: "env \<Rightarrow> nav_item list \<Rightarrow> (string option \<times> string) list \<Rightarrow> build_state \<Rightarrow> error + build_state" where
  "run_pages ev nav [] st = Inr st"
| "run_pages ev nav (tp # tps) st =
     (case page_step ev nav tp st of Inl e \<Rightarrow> Inl e | Inr st' \<Rightarrow> run_pages ev nav tps st')"

text \<open>The file a successful \<open>page_step\<close> writes: its name and its text.\<close>

definition page_text :: "env \<Rightarrow> nav_item list \<Rightarrow> string option \<times> string \<Rightarrow> string" where
  "page_text ev nav tp =
     (case fst tp of
        None \<Rightarrow> []
      | Some ttl \<Rightarrow>
          (case render_page ev nav (snd tp) (html_path_of (snd tp)) ttl of
             Inl e \<Rightarrow> []
           | Inr txt \<Rightarrow> txt))"

definition page_write :: "env \<Rightarrow> nav_item list \<Rightarrow> string option \<times> string \<Rightarrow> string \<times> string" where
  "page_write ev nav tp = (output_file ev (html_path_of (snd tp)), page_text ev nav tp)"

text \<open>A sequence of file writes, the files copied from \<open>docs/assets\<close>, and the marker file.\<close>

fun write_all :: "(string \<times> string) list \<Rightarrow> (string \<rightharpoonup> string) \<Rightarrow> (string \<rightharpoonup> string)" where
  "write_all [] files = files"
| "write_all ((name, txt) # ws) files = write_all ws (files(name \<mapsto> txt))"

definition asset_writes :: "env \<Rightarrow> (string \<times> string) list" where
  "asset_writes ev =
     (case assets ev of None \<Rightarrow> [] | Some fs \<Rightarrow> map (\<lambda>(name, bytes). (output_file ev (''assets/'' @ name), bytes)) fs)"

definition touched :: "env \<Rightarrow> (string \<rightharpoonup> string) \<Rightarrow> (string \<rightharpoonup> string)" where
  "touched ev files =
     (case files (output_file ev ''.nojekyll'') of
        None \<Rightarrow> files(output_file ev ''.nojekyll'' \<mapsto> [])
      | Some _ \<Rightarrow> files)"

text \<open>The two lines \<open>build_site\<close> prints last.\<close>

definition final_lines :: "env \<Rightarrow> nat \<Rightarrow> string list" where
  \<open>final_lines ev n =
     [''\<newline>Build complete! Processed '' @ str_of_nat n @ '' files.'',
      ''Output directory: '' @ abs_output_dir ev]\<close>

text \<open>
  \<open>no_overlap old x\<close>: \<open>old\<close> does not occur in \<open>x\<close>, and \<open>x\<close> does not end with the
  beginning of \<open>old\<close>, so that no occurrence of \<open>old\<close> in \<open>x @ z\<close> starts inside \<open>x\<close>.
  \<open>no_pair h x\<close>: the character \<open>h\<close> never stands twice in a row in \<open>x\<close> and \<open>x\<close> does
  not end with it; for \<open>h = {\<close> this is a text without \<open>{{\<close> that cannot begin or
  complete a placeholder token.
\<close>

fun no_overlap :: "string \<Rightarrow> string \<Rightarrow> bool" where
  "no_overlap old [] = True"
| "no_overlap old (c # cs) = (\<not> prefix old (c # cs) \<and> \<not> prefix (c # cs) old \<and> no_overlap old cs)"

fun no_pair :: "char \<Rightarrow> string \<Rightarrow> bool" where
  "no_pair h [] = True"
| "no_pair h [c] = (c \<noteq> h)"
| "no_pair h (c # d # cs) = (\<not> (c = h \<and> d = h) \<and> no_pair h (d # cs))"

text \<open>
  \<open>s.split(sep)\<close> for a non-empty separator (Python raises \<open>ValueError\<close> for an empty
  one; the function is only used with a placeholder token).
\<close>

function str_split :: "string \<Rightarrow> string \<Rightarrow> string list" where
  "str_split sep [] = [[]]"
| "str_split sep (c # cs) =
     (if sep \<noteq> [] \<and> prefix sep (c # cs) then [] # str_split sep (drop (length sep) (c # cs))
      else (case str_split sep cs of [] \<Rightarrow> [[c]] | p # ps \<Rightarrow> (c # p) # ps))"
  by pat_completeness auto
termination
  by (relation "measure (\<lambda>(sep, s). length s)") auto

text \<open>
  The navigation markup as a tree: a link with its depth, its active flag, its target and
  its title, or a folder with its depth, its title and its children. \<open>nav_tree\<close> builds
  the tree as \<open>generate_nav_html\<close> walks the items, \<open>nodes_html\<close> prints it;
  \<open>active_links\<close> counts the links that carry the active marker and \<open>link_targets\<close>
  lists the output paths of the links.
\<close>

datatype nav_node = Link nat bool string string | Folder nat string "nav_node list"

fun node_html :: "nav_node \<Rightarrow> string list"
  and nodes_html :: "nav_node list \<Rightarrow> string list"
where
  \<open>node_html (Link depth active href ttl) =
     [''<li class="nav-item depth-'' @ str_of_nat depth @ (if active then '' active'' else []) @ ''">'',
      ''<a href="'' @ href @ ''">'' @ ttl @ ''</a>'',
      ''</li>'']\<close>
| \<open>node_html (Folder depth ttl ns) =
     [''<li class="nav-folder depth-'' @ str_of_nat depth @ ''">'',
      ''<span class="folder-title">'' @ ttl @ ''</span>'',
      ''<ul class="nav-submenu">'',
      str_join ''\<newline>'' (nodes_html ns),
      ''</ul>'',
      ''</li>'']\<close>
| \<open>nodes_html [] = []\<close>
| \<open>nodes_html (n # ns) = node_html n @ nodes_html ns\<close>

fun nav_tree :: "nav_item list \<Rightarrow> string \<Rightarrow> nat \<Rightarrow> string \<Rightarrow> error + nav_node list"
  and nav_node_of :: "nav_item \<Rightarrow> string \<Rightarrow> nat \<Rightarrow> string \<Rightarrow> error + nav_node"
where
  \<open>nav_tree [] current_path depth base_path = Inr []\<close>
| \<open>nav_tree (item # items) current_path depth base_path =
     (case nav_node_of item current_path depth base_path of
        Inl e \<Rightarrow> Inl e
      | Inr n \<Rightarrow>
          (case nav_tree items current_path depth base_path of
             Inl e \<Rightarrow> Inl e
           | Inr ns \<Rightarrow> Inr (n # ns)))\<close>
| \<open>nav_node_of (NavItem t p (Some cs)) current_path depth base_path =
     (case t of
        None \<Rightarrow> Inl (KeyError ''title'')
      | Some ttl \<Rightarrow>
          (case nav_tree cs current_path (depth + 1) base_path of
             Inl e \<Rightarrow> Inl e
           | Inr ns \<Rightarrow> Inr (Folder depth ttl ns)))\<close>
| \<open>nav_node_of (NavItem t p None) current_path depth base_path =
     (case t of
        None \<Rightarrow> Inl (KeyError ''title'')
      | Some ttl \<Rightarrow>
          (let html_path = str_replace ''.md'' ''.html'' (case p of None \<Rightarrow> [] | Some x \<Rightarrow> x)
           in Inr (Link depth (html_path = current_path) (base_path @ html_path) ttl)))\<close>

fun active_links :: "nav_node list \<Rightarrow> nat" where
  "active_links [] = 0"
| "active_links (Link depth active href ttl # ns) = (if active then 1 else 0) + active_links ns"
| "active_links (Folder depth ttl sub # ns) = active_links sub + active_links ns"

fun link_targets :: "nav_item list \<Rightarrow> string list" where
  "link_targets [] = []"
| "link_targets (NavItem t p (Some cs) # items) = link_targets cs @ link_targets items"
| "link_targets (NavItem t p None # items) =
     str_replace ''.md'' ''.html'' (case p of None \<Rightarrow> [] | Some x \<Rightarrow> x) # link_targets items"



text \<open>Every item of a navigation tree, at every nesting level, has a title.\<close>

fun titled :: "nav_item list \<Rightarrow> bool" where
  "titled [] = True"
| "titled (NavItem t p (Some cs) # items) = (t \<noteq> None \<and> titled cs \<and> titled items)"
| "titled (NavItem t p None # items) = (t \<noteq> None \<and> titled items)"

text \<open>A small source tree: \<open>index.md\<close> exists, \<open>api/http-api.md\<close> does not.\<close>

definition example_env :: env where
  "example_env =
     \<lparr>path_exists = (\<lambda>p. p = ''index.md''),
      read_text = (\<lambda>p. if p = ''index.md'' then Some ''# Home'' else None),
      markdown = (\<lambda>md. md),
      output_file = (\<lambda>p. p),
      write_fails = (\<lambda>files name. False),
      assets = None,
      show_md_path = (\<lambda>p. ''docs/'' @ p),
      abs_output_dir = ''/srv/site''\<rparr>"

definition example_nav :: "nav_item list" where
  "example_nav = [page ''Home'' ''index.md'', folder ''API'' [page ''HTTP'' ''api/http-api.md'']]"

text \<open>
  A source tree in which two navigation items name one file in two ways: \<open>a.md\<close> and
  \<open>./a.md\<close>, whose output paths \<open>a.html\<close> and \<open>./a.html\<close> are one output file.
\<close>

definition alias_env :: env where
  "alias_env =
     \<lparr>path_exists = (\<lambda>p. p = ''a.md'' \<or> p = ''./a.md''),
      read_text = (\<lambda>p. Some (''# '' @ p)),
      markdown = (\<lambda>md. md),
      output_file = (\<lambda>p. if p = ''./a.html'' then ''a.html'' else p),
      write_fails = (\<lambda>files name. False),
      assets = None,
      show_md_path = (\<lambda>p. ''docs/'' @ p),
      abs_output_dir = ''/srv/site''\<rparr>"

definition alias_nav :: "nav_item list" where
  "alias_nav = [page ''A'' ''a.md'', page ''B'' ''./a.md'']"

section \<open>Properties of the string operations\<close>

lemma str_count_slash: "str_count ''/'' s = count_list s CHR ''/''"
  by (induction s) auto

lemma str_of_nat_0: "str_of_nat 0 = ''0''"
  by code_simp

lemma digit_char_value: "d < 10 \<Longrightarrow> (of_char (digit_char d) :: nat) - 48 = d"
  by (simp add: digit_char_def)

lemma digits_value_snoc:
  "digits_value (s @ [c]) = 10 * digits_value s + (of_char c - 48)"
  by (simp add: digits_value_def)

lemma digits_value_str_of_nat: "digits_value (str_of_nat n) = n"
proof (induction n rule: str_of_nat.induct)
  case (1 n)
  show ?case
  proof (cases "n < 10")
    case True
    then show ?thesis
      using digit_char_value[of n] digits_value_snoc[of "[]" "digit_char n"]
      by (simp add: digits_value_def)
  next
    case False
    have "str_of_nat n = str_of_nat (n div 10) @ [digit_char (n mod 10)]"
      using False by (subst str_of_nat.simps) simp
    then have "digits_value (str_of_nat n)
                 = 10 * digits_value (str_of_nat (n div 10)) + (of_char (digit_char (n mod 10)) - 48)"
      by (simp only: digits_value_snoc)
    also have "\<dots> = 10 * (n div 10) + n mod 10"
      using 1[OF False] digit_char_value[of "n mod 10"] by simp
    finally show ?thesis by simp
  qed
qed

text \<open>
  C3: the base-path prefix of an output path is \<open>../\<close> once per separator character of the
  path, and \<open>./\<close> when the path has no separator; it is \<open>../\<close> for
  \<open>api/websocket-api.html\<close> and \<open>./\<close> for \<open>index.html\<close>.
\<close>

theorem base_path_per_separator:
  "base_path_of p =
     (if count_list p CHR ''/'' = 0 then ''./''
      else concat (replicate (count_list p CHR ''/'') ''../''))
   \<and> base_path_of ''api/websocket-api.html'' = ''../''
   \<and> base_path_of ''index.html'' = ''./''"
proof (intro conjI)
  show "base_path_of p =
     (if count_list p CHR ''/'' = 0 then ''./''
      else concat (replicate (count_list p CHR ''/'') ''../''))"
    by (simp add: base_path_of_def str_count_slash str_repeat_def Let_def)
  show "base_path_of ''api/websocket-api.html'' = ''../''"
    by (simp add: base_path_of_def str_count_slash str_repeat_def Let_def)
  show "base_path_of ''index.html'' = ''./''"
    by (simp add: base_path_of_def str_count_slash str_repeat_def Let_def)
qed

section \<open>The traversal of the navigation tree\<close>

lemma run_pages_append:
  "run_pages ev nav (xs @ ys) st =
     (case run_pages ev nav xs st of Inl e \<Rightarrow> Inl e | Inr st' \<Rightarrow> run_pages ev nav ys st')"
  by (induction xs arbitrary: st) (auto split: sum.splits)

lemma process_page_item:
  "process_nav_item ev nav (NavItem t (Some pth) None) st =
     (if path_exists ev pth then page_step ev nav (t, pth) st else Inr st)"
  by (cases st)
     (auto simp: page_step_def process_file_def render_page_def html_path_of_def
         progress_line_def Let_def split: option.splits sum.splits)

lemma page_nodes_Cons: "page_nodes (item # items) = page_nodes [item] @ page_nodes items"
proof (cases item)
  case (NavItem t p c)
  then show ?thesis by (cases c; cases p) simp_all
qed

lemma traversal_flat_aux:
  "process_nav_item ev nav item st = run_pages ev nav (existing_pages ev [item]) st"
  "process_nav_items ev nav items st = run_pages ev nav (existing_pages ev items) st"
proof (induction ev nav item st and ev nav items st rule: process_nav_item_process_nav_items.induct)
  case (1 ev nav t p cs st)
  then show ?case by (simp add: existing_pages_def)
next
  case (2 ev nav t pth st)
  show ?case
    unfolding process_page_item by (simp add: existing_pages_def split: sum.splits)
next
  case (3 ev nav t st)
  then show ?case by (simp add: existing_pages_def)
next
  case (4 ev nav st)
  then show ?case by (simp add: existing_pages_def)
next
  case (5 ev nav item items st)
  have split: "existing_pages ev (item # items) = existing_pages ev [item] @ existing_pages ev items"
    by (simp add: existing_pages_def page_nodes_Cons[of item items])
  show ?case
    using 5 by (simp add: split run_pages_append split: sum.splits)
qed

lemma write_all_append: "write_all (xs @ ys) m = write_all ys (write_all xs m)"
  by (induction xs arbitrary: m) auto

lemma write_all_apply:
  "write_all ws m k = (case map_of (rev ws) k of Some v \<Rightarrow> Some v | None \<Rightarrow> m k)"
  by (induction ws arbitrary: m) (auto simp: map_add_def split: option.splits)

lemma write_all_idem: "write_all ws (write_all ws m) = write_all ws m"
  by (rule ext) (simp add: write_all_apply split: option.splits)

lemma dom_write_all: "dom (write_all ws m) = dom m \<union> fst ` set ws"
proof (induction ws arbitrary: m)
  case Nil
  show ?case by simp
next
  case (Cons w ws)
  obtain k v where w: "w = (k, v)" by (cases w)
  have "dom (write_all (w # ws) m) = dom (write_all ws (m(k \<mapsto> v)))" by (simp add: w)
  also have "\<dots> = dom (m(k \<mapsto> v)) \<union> fst ` set ws" by (rule Cons.IH)
  also have "\<dots> = dom m \<union> fst ` set (w # ws)" by (simp add: w)
  finally show ?case .
qed

lemma write_all_Cons: "write_all (w # ws) m = write_all ws (write_all [w] m)"
  by (cases w) simp

lemma page_step_Inr:
  assumes "page_step ev nav tp st = Inr st'"
  shows "site st' = write_all [page_write ev nav tp] (site st)"
    and "processed_files st' = processed_files st @ [snd tp]"
    and "stdout st' = stdout st @ [progress_line ev (snd tp)]"
  using assms
  by (auto simp: page_step_def page_text_def page_write_def
      split: option.splits sum.splits if_splits)

lemma run_pages_Inr:
  assumes "run_pages ev nav tps st = Inr st'"
  shows "site st' = write_all (map (page_write ev nav) tps) (site st)
       \<and> processed_files st' = processed_files st @ map snd tps
       \<and> stdout st' = stdout st @ map (\<lambda>tp. progress_line ev (snd tp)) tps"
  using assms
proof (induction tps arbitrary: st)
  case Nil
  then show ?case by simp
next
  case (Cons tp tps)
  then obtain st1 where s1: "page_step ev nav tp st = Inr st1" and r: "run_pages ev nav tps st1 = Inr st'"
    by (auto split: sum.splits)
  have w: "write_all (map (page_write ev nav) (tp # tps)) (site st)
             = write_all (map (page_write ev nav) tps) (write_all [page_write ev nav tp] (site st))"
    using write_all_Cons[of "page_write ev nav tp" "map (page_write ev nav) tps" "site st"] by simp
  from Cons.IH[OF r] page_step_Inr[OF s1] show ?case
    unfolding w by simp
qed

lemma copytree_Inr:
  "copytree ev fs m = Inr m' \<Longrightarrow>
     m' = write_all (map (\<lambda>(name, bytes). (output_file ev (''assets/'' @ name), bytes)) fs) m"
  by (induction ev fs m rule: copytree.induct) (auto simp: Let_def split: if_splits)

lemma build_site_Inr:
  assumes "build_site ev nav files = Inr st"
  shows "site st = write_all (asset_writes ev @ map (page_write ev nav) (existing_pages ev nav)) (touched ev files)"
    and "processed_files st = map snd (existing_pages ev nav)"
    and "stdout st = map (\<lambda>tp. progress_line ev (snd tp)) (existing_pages ev nav)
                      @ final_lines ev (length (existing_pages ev nav))"
proof -
  from assms obtain files1 files2 st0 where
    t: "touch ev files (output_file ev ''.nojekyll'') = Inr files1" and
    a: "(case assets ev of None \<Rightarrow> Inr files1 | Some fs \<Rightarrow> copytree ev fs files1) = Inr files2" and
    p: "process_nav_items ev nav nav \<lparr>site = files2, processed_files = [], stdout = []\<rparr> = Inr st0" and
    st: "st = st0\<lparr>stdout := stdout st0 @ final_lines ev (length (processed_files st0))\<rparr>"
    by (auto simp: build_site_def final_lines_def split: sum.splits)
  from t have f1: "files1 = touched ev files"
    by (auto simp: touch_def touched_def split: if_splits)
  from a have f2: "files2 = write_all (asset_writes ev) files1"
    by (auto simp: asset_writes_def dest: copytree_Inr split: option.splits)
  from p have "run_pages ev nav (existing_pages ev nav) \<lparr>site = files2, processed_files = [], stdout = []\<rparr> = Inr st0"
    by (simp add: traversal_flat_aux(2))
  from run_pages_Inr[OF this] have r:
    "site st0 = write_all (map (page_write ev nav) (existing_pages ev nav)) files2"
    "processed_files st0 = map snd (existing_pages ev nav)"
    "stdout st0 = map (\<lambda>tp. progress_line ev (snd tp)) (existing_pages ev nav)"
    by simp_all
  show "site st = write_all (asset_writes ev @ map (page_write ev nav) (existing_pages ev nav)) (touched ev files)"
    by (simp add: st r f1 f2 write_all_append)
  show "processed_files st = map snd (existing_pages ev nav)"
    by (simp add: st r)
  show "stdout st = map (\<lambda>tp. progress_line ev (snd tp)) (existing_pages ev nav)
                      @ final_lines ev (length (existing_pages ev nav))"
    by (simp add: st r)
qed

lemma touched_idem: "output_file ev ''.nojekyll'' \<in> dom m \<Longrightarrow> touched ev m = m"
  by (auto simp: touched_def)

lemma touched_dom: "output_file ev ''.nojekyll'' \<in> dom (touched ev m)"
  by (auto simp: touched_def split: option.splits)

lemma rebuild_same:
  assumes "build_site ev nav files = Inr s1" and "build_site ev nav (site s1) = Inr s2"
  shows "s2 = s1"
proof -
  let ?W = "asset_writes ev @ map (page_write ev nav) (existing_pages ev nav)"
  have 1: "site s1 = write_all ?W (touched ev files)"
    by (rule build_site_Inr(1)[OF assms(1)])
  have "output_file ev ''.nojekyll'' \<in> dom (site s1)"
    unfolding 1 dom_write_all using touched_dom by blast
  then have "touched ev (site s1) = site s1" by (rule touched_idem)
  with build_site_Inr(1)[OF assms(2)] have "site s2 = write_all ?W (site s1)" by simp
  then have "site s2 = site s1" by (simp add: 1 write_all_idem)
  moreover have "processed_files s2 = processed_files s1"
    by (simp add: build_site_Inr(2)[OF assms(1)] build_site_Inr(2)[OF assms(2)])
  moreover have "stdout s2 = stdout s1"
    by (simp add: build_site_Inr(3)[OF assms(1)] build_site_Inr(3)[OF assms(2)])
  ultimately show ?thesis by simp
qed

section \<open>A concrete build\<close>

lemma html_path_examples:
  "str_replace ''.md'' ''.html'' ''index.md'' = ''index.html''"
  "str_replace ''.md'' ''.html'' ''api/http-api.md'' = ''api/http-api.html''"
  by simp_all

lemma example_nav_html: "\<exists>h. generate_nav_html example_nav ''index.html'' 0 ''./'' = Inr h"
  by (simp add: example_nav_def page_def folder_def html_path_examples Let_def)

lemma example_process_file_ok:
  "\<exists>st. process_file example_env example_nav
          \<lparr>site = fs, processed_files = [], stdout = []\<rparr>
          ''index.md'' ''index.html'' ''Home'' = Inr st"
proof -
  obtain h where h: "generate_nav_html example_nav ''index.html'' 0 ''./'' = Inr h"
    using example_nav_html by blast
  have b: "base_path_of ''index.html'' = ''./''"
    by (simp add: base_path_of_def Let_def)
  show ?thesis
    by (simp add: process_file_def example_env_def b h Let_def del: generate_nav_html.simps)
qed

lemma example_build_ok: "\<exists>st. build_site example_env example_nav files = Inr st"
proof -
  have o: "output_file example_env = (\<lambda>p. p)" by (simp add: example_env_def)
  obtain fs where t: "touch example_env files ''.nojekyll'' = Inr fs"
    by (simp add: touch_def example_env_def)
  obtain st where p: "process_file example_env example_nav
           \<lparr>site = fs, processed_files = [], stdout = []\<rparr>
           ''index.md'' ''index.html'' ''Home'' = Inr st"
    using example_process_file_ok by blast
  have e: "path_exists example_env ''index.md''" "\<not> path_exists example_env ''api/http-api.md''"
    by (simp_all add: example_env_def)
  have a: "assets example_env = None" by (simp add: example_env_def)
  show ?thesis
    by (simp add: build_site_def example_nav_def page_def folder_def html_path_examples
        o t p[unfolded example_nav_def page_def folder_def] e a del: str_replace.simps)
qed

section \<open>The navigation markup\<close>

lemma nav_html_tree:
  "generate_nav_html items cur d b =
     (case nav_tree items cur d b of Inl e \<Rightarrow> Inl e
      | Inr ns \<Rightarrow> Inr (str_join ''\<newline>'' (nodes_html ns)))"
  "nav_loop items cur d b =
     (case nav_tree items cur d b of Inl e \<Rightarrow> Inl e | Inr ns \<Rightarrow> Inr (nodes_html ns))"
  "nav_item_html item cur d b =
     (case nav_node_of item cur d b of Inl e \<Rightarrow> Inl e | Inr n \<Rightarrow> Inr (node_html n))"
proof (induction items cur d b and items cur d b and item cur d b
    rule: generate_nav_html_nav_loop_nav_item_html.induct)
  case (1 nav_items current_path depth base_path)
  then show ?case by (simp split: sum.splits)
next
  case (2 current_path depth base_path)
  show ?case by simp
next
  case (3 item items current_path depth base_path)
  then show ?case by (simp split: sum.splits)
next
  case (4 t p cs current_path depth base_path)
  then show ?case by (simp split: sum.splits option.splits del: generate_nav_html.simps)
next
  case (5 t p current_path depth base_path)
  show ?case by (simp add: Let_def split: option.splits del: str_replace.simps)
qed

lemma active_links_append: "active_links (xs @ ys) = active_links xs + active_links ys"
  by (induction xs rule: active_links.induct) simp_all

lemma active_links_count:
  "nav_tree items cur d b = Inr ns \<Longrightarrow>
     active_links ns = length (filter (\<lambda>hp. hp = cur) (link_targets items))"
  "nav_node_of item cur d b = Inr n \<Longrightarrow>
     active_links [n] = length (filter (\<lambda>hp. hp = cur) (link_targets [item]))"
proof (induction items cur d b and item cur d b arbitrary: ns and n rule: nav_tree_nav_node_of.induct)
  case (1 current_path depth base_path)
  then show ?case by simp
next
  case (2 item items current_path depth base_path)
  from "2.prems" obtain n ns' where
    n: "nav_node_of item current_path depth base_path = Inr n" and
    t: "nav_tree items current_path depth base_path = Inr ns'" and
    ns: "ns = n # ns'"
    by (auto split: sum.splits)
  have sp: "link_targets (item # items) = link_targets [item] @ link_targets items"
  proof (cases item)
    case (NavItem t p c)
    then show ?thesis by (cases c) simp_all
  qed
  have "active_links (n # ns') = active_links [n] + active_links ns'"
    using active_links_append[of "[n]" ns'] by simp
  with "2.IH"(1)[OF n] "2.IH"(2)[OF n t] show ?case
    by (simp add: ns sp del: link_targets.simps)
next
  case (3 t p cs current_path depth base_path)
  from "3.prems" obtain ttl sub where
    "t = Some ttl" and s: "nav_tree cs current_path (depth + 1) base_path = Inr sub"
    and n: "n = Folder depth ttl sub"
    by (auto split: option.splits sum.splits)
  with "3.IH"[OF \<open>t = Some ttl\<close> s] show ?case by simp
next
  case (4 t p current_path depth base_path)
  then show ?case by (auto simp: Let_def split: option.splits simp del: str_replace.simps)
qed

lemma count_one: "distinct xs \<Longrightarrow> x \<in> set xs \<Longrightarrow> length (filter (\<lambda>y. y = x) xs) = 1"
  by (induction xs) (auto simp: filter_empty_conv)

lemma nav_structure_targets_distinct: "distinct (link_targets NAV_STRUCTURE)"
  by (simp add: NAV_STRUCTURE_def page_def folder_def)

lemma nav_structure_tree:
  "\<exists>ns. nav_tree NAV_STRUCTURE ''api/websocket-api.html'' 0 ''../'' = Inr ns"
  by (simp add: NAV_STRUCTURE_def page_def folder_def Let_def del: str_replace.simps)

lemma nav_structure_target: "''api/websocket-api.html'' \<in> set (link_targets NAV_STRUCTURE)"
  by (simp add: NAV_STRUCTURE_def page_def folder_def)


text \<open>
  C4, as stated, fails: the source paths \<open>a.md\<close> and \<open>a.html\<close> are different, both pages
  get the output path \<open>a.html\<close>, and in the navigation rendered for \<open>a.html\<close> both links
  carry the active marker.
\<close>

theorem active_marker_counterexample:
  \<open>distinct [''a.md'', ''a.html'']
   \<and> generate_nav_html [page ''A'' ''a.md'', page ''B'' ''a.html''] ''a.html'' 0 ''./'' =
       Inr (''<li class="nav-item depth-0 active">\<newline>'' @
            ''<a href="./a.html">A</a>\<newline>'' @
            ''</li>\<newline>'' @
            ''<li class="nav-item depth-0 active">\<newline>'' @
            ''<a href="./a.html">B</a>\<newline>'' @
            ''</li>'')
   \<and> nav_tree [page ''A'' ''a.md'', page ''B'' ''a.html''] ''a.html'' 0 ''./'' =
       Inr [Link 0 True ''./a.html'' ''A'', Link 0 True ''./a.html'' ''B'']
   \<and> active_links [Link 0 True ''./a.html'' ''A'', Link 0 True ''./a.html'' ''B''] = 2\<close>
  by (simp add: page_def Let_def str_of_nat_0 del: str_of_nat.simps)

text \<open>
  C4, amended: a page link carries the class \<open>active\<close> if and only if its computed output
  path equals the current output path; the markup is the printed navigation tree, in which
  the number of active links is the number of links whose output path equals the current
  one; and when the output paths of the links are pairwise different and the current path
  is one of them, exactly one link is active.
\<close>

theorem active_marker_unique:
  \<open>nav_item_html (NavItem (Some ttl) p None) cur d b =
     Inr [''<li class="nav-item depth-'' @ str_of_nat d
            @ (if str_replace ''.md'' ''.html'' (case p of None \<Rightarrow> [] | Some x \<Rightarrow> x) = cur
               then '' active'' else [])
            @ ''">'',
          ''<a href="'' @ b @ str_replace ''.md'' ''.html'' (case p of None \<Rightarrow> [] | Some x \<Rightarrow> x)
            @ ''">'' @ ttl @ ''</a>'',
          ''</li>'']
   \<and> generate_nav_html items cur d b =
       (case nav_tree items cur d b of
          Inl e \<Rightarrow> Inl e
        | Inr ns \<Rightarrow> Inr (str_join ''\<newline>'' (nodes_html ns)))
   \<and> (nav_tree items cur d b = Inr ns \<longrightarrow>
        active_links ns = length (filter (\<lambda>hp. hp = cur) (link_targets items)))
   \<and> (nav_tree items cur d b = Inr ns \<longrightarrow> distinct (link_targets items) \<longrightarrow>
        cur \<in> set (link_targets items) \<longrightarrow> active_links ns = 1)\<close>
proof (intro conjI impI)
  show \<open>nav_item_html (NavItem (Some ttl) p None) cur d b =
     Inr [''<li class="nav-item depth-'' @ str_of_nat d
            @ (if str_replace ''.md'' ''.html'' (case p of None \<Rightarrow> [] | Some x \<Rightarrow> x) = cur
               then '' active'' else [])
            @ ''">'',
          ''<a href="'' @ b @ str_replace ''.md'' ''.html'' (case p of None \<Rightarrow> [] | Some x \<Rightarrow> x)
            @ ''">'' @ ttl @ ''</a>'',
          ''</li>'']\<close>
    by (simp add: Let_def del: str_replace.simps str_of_nat.simps)
  show \<open>generate_nav_html items cur d b =
       (case nav_tree items cur d b of
          Inl e \<Rightarrow> Inl e
        | Inr ns \<Rightarrow> Inr (str_join ''\<newline>'' (nodes_html ns)))\<close>
    by (rule nav_html_tree(1))
  show "active_links ns = length (filter (\<lambda>hp. hp = cur) (link_targets items))"
    if "nav_tree items cur d b = Inr ns"
    using that by (rule active_links_count(1))
  show "active_links ns = 1"
    if "nav_tree items cur d b = Inr ns" "distinct (link_targets items)"
      "cur \<in> set (link_targets items)"
    using active_links_count(1)[OF that(1)] count_one[OF that(2,3)] by simp
qed

theorem active_marker_unique_witness:
  "\<exists>ns. nav_tree NAV_STRUCTURE ''api/websocket-api.html'' 0 ''../'' = Inr ns
        \<and> active_links ns = 1"
proof -
  obtain ns where t: "nav_tree NAV_STRUCTURE ''api/websocket-api.html'' 0 ''../'' = Inr ns"
    using nav_structure_tree by blast
  from active_marker_unique[of "''x''" None "''api/websocket-api.html''" 0 "''../''" NAV_STRUCTURE ns]
  have "nav_tree NAV_STRUCTURE ''api/websocket-api.html'' 0 ''../'' = Inr ns \<longrightarrow>
          distinct (link_targets NAV_STRUCTURE) \<longrightarrow>
          ''api/websocket-api.html'' \<in> set (link_targets NAV_STRUCTURE) \<longrightarrow> active_links ns = 1"
    by (elim conjE)
  with t nav_structure_targets_distinct nav_structure_target have "active_links ns = 1"
    by blast
  with t show ?thesis by blast
qed

lemma untitled_item_raises:
  "generate_nav_html (NavItem None p c # items) cur d b = Inl (KeyError ''title'')"
  by (cases c) (simp_all add: Let_def del: str_replace.simps)

text \<open>
  C10: an item with a title and neither \<open>"children"\<close> nor \<open>"path"\<close> is rendered as a page
  link whose target is the base path alone, active if and only if the current output path
  is empty; the traversal of the site builder returns the state unchanged for it, and it
  is no Page node.
\<close>

theorem pathless_item_rendered_not_built:
  \<open>generate_nav_html [NavItem (Some ttl) None None] cur d b =
     Inr (''<li class="nav-item depth-'' @ str_of_nat d
            @ (if cur = [] then '' active'' else []) @ ''">'' @ ''\<newline>''
          @ ''<a href="'' @ b @ ''">'' @ ttl @ ''</a>'' @ ''\<newline>''
          @ ''</li>'')
   \<and> process_nav_item ev nav (NavItem t None None) st = Inr st
   \<and> page_nodes [NavItem t None None] = []
   \<and> existing_pages ev [NavItem t None None] = []\<close>
  by (auto simp: Let_def existing_pages_def simp del: str_of_nat.simps)

section \<open>The files, the count and the lines a build produces\<close>

lemma write_all_other: "k \<notin> fst ` set ws \<Longrightarrow> write_all ws m k = m k"
proof (induction ws arbitrary: m)
  case Nil
  show ?case by simp
next
  case (Cons w ws)
  obtain k' v where w: "w = (k', v)" by (cases w)
  from Cons.prems have ne: "k \<noteq> k'" and notin: "k \<notin> fst ` set ws" by (auto simp: w)
  have "write_all (w # ws) m k = write_all ws (m(k' \<mapsto> v)) k" by (simp add: w)
  also have "\<dots> = (m(k' \<mapsto> v)) k" using notin by (rule Cons.IH)
  also have "\<dots> = m k" using ne by simp
  finally show ?case .
qed

lemma write_all_last:
  "k \<notin> fst ` set after \<Longrightarrow> write_all (before @ (k, v) # after) m k = Some v"
proof -
  assume notin: "k \<notin> fst ` set after"
  have "write_all (before @ (k, v) # after) m k
          = write_all after ((write_all before m)(k \<mapsto> v)) k"
    by (simp add: write_all_append)
  also have "\<dots> = ((write_all before m)(k \<mapsto> v)) k" using notin by (rule write_all_other)
  also have "\<dots> = Some v" by simp
  finally show ?thesis .
qed

lemma page_write_keys:
  "fst ` set (map (page_write ev nav) tps)
     = (\<lambda>tp. output_file ev (str_replace ''.md'' ''.html'' (snd tp))) ` set tps"
  by (simp add: image_image page_write_def html_path_of_def del: str_replace.simps)

lemma touched_domain: "dom (touched ev files) = dom files \<union> {output_file ev ''.nojekyll''}"
  by (auto simp: touched_def split: option.splits)


lemma titled_Cons: "titled (item # items) = (titled [item] \<and> titled items)"
proof (cases item)
  case (NavItem t p c)
  then show ?thesis by (cases c) auto
qed

lemma nav_tree_titled:
  "titled items \<Longrightarrow> \<exists>ns. nav_tree items cur d b = Inr ns"
  "titled [item] \<Longrightarrow> \<exists>n. nav_node_of item cur d b = Inr n"
proof (induction items cur d b and item cur d b rule: nav_tree_nav_node_of.induct)
  case (1 current_path depth base_path)
  show ?case by simp
next
  case (2 item items current_path depth base_path)
  have "titled [item]" "titled items"
    using "2.prems" titled_Cons[of item items] by simp_all
  with 2 show ?case by fastforce
next
  case (3 t p cs current_path depth base_path)
  then show ?case by (auto split: option.splits)
next
  case (4 t p current_path depth base_path)
  then show ?case by (auto simp: Let_def split: option.splits simp del: str_replace.simps)
qed

lemma generate_nav_html_titled:
  "titled items \<Longrightarrow> \<exists>h. generate_nav_html items cur d b = Inr h"
proof -
  assume "titled items"
  then obtain ns where "nav_tree items cur d b = Inr ns"
    using nav_tree_titled(1) by blast
  then have "generate_nav_html items cur d b = Inr (str_join ''\<newline>'' (nodes_html ns))"
    using nav_html_tree(1)[of items cur d b] by (simp del: generate_nav_html.simps)
  then show ?thesis by blast
qed

lemma page_nodes_titled: "titled items \<Longrightarrow> tp \<in> set (page_nodes items) \<Longrightarrow> fst tp \<noteq> None"
  by (induction items rule: page_nodes.induct) auto

lemma page_step_ok:
  assumes "fst tp \<noteq> None" "read_text ev (snd tp) \<noteq> None" "titled nav"
    "\<forall>fs name. \<not> write_fails ev fs name"
  shows "\<exists>st'. page_step ev nav tp st = Inr st'"
proof -
  obtain h where "generate_nav_html nav (html_path_of (snd tp)) 0
      (base_path_of (html_path_of (snd tp))) = Inr h"
    using generate_nav_html_titled[OF assms(3)] by blast
  with assms show ?thesis
    by (auto simp: page_step_def render_page_def simp del: generate_nav_html.simps)
qed

lemma run_pages_ok:
  assumes "titled nav" "\<forall>fs name. \<not> write_fails ev fs name"
  shows "(\<forall>tp \<in> set tps. fst tp \<noteq> None \<and> read_text ev (snd tp) \<noteq> None) \<Longrightarrow>
           \<exists>st'. run_pages ev nav tps st = Inr st'"
proof (induction tps arbitrary: st)
  case Nil
  show ?case by simp
next
  case (Cons tp tps)
  then obtain st1 where "page_step ev nav tp st = Inr st1"
    using page_step_ok[of tp ev nav st] assms by auto
  with Cons show ?case by simp
qed

lemma copytree_ok:
  "\<forall>fs name. \<not> write_fails ev fs name \<Longrightarrow> \<exists>m'. copytree ev fs m = Inr m'"
  by (induction ev fs m rule: copytree.induct) (auto simp: Let_def)

lemma build_completes:
  assumes t: "titled nav"
    and r: "\<forall>tp \<in> set (page_nodes nav). path_exists ev (snd tp) \<longrightarrow> read_text ev (snd tp) \<noteq> None"
    and w: "\<forall>fs name. \<not> write_fails ev fs name"
  shows "\<exists>st. build_site ev nav files = Inr st"
proof -
  obtain files1 where f1: "touch ev files (output_file ev ''.nojekyll'') = Inr files1"
    using w by (simp add: touch_def)
  obtain files2 where
    f2: "(case assets ev of None \<Rightarrow> Inr files1 | Some fs \<Rightarrow> copytree ev fs files1) = Inr files2"
    using copytree_ok[OF w] by (cases "assets ev") auto
  have "\<forall>tp \<in> set (existing_pages ev nav). fst tp \<noteq> None \<and> read_text ev (snd tp) \<noteq> None"
    using r page_nodes_titled[OF t] by (auto simp: existing_pages_def)
  from run_pages_ok[OF t w this] obtain st0 where
    "run_pages ev nav (existing_pages ev nav)
       \<lparr>site = files2, processed_files = [], stdout = []\<rparr> = Inr st0"
    by blast
  then have "process_nav_items ev nav nav
       \<lparr>site = files2, processed_files = [], stdout = []\<rparr> = Inr st0"
    by (simp add: traversal_flat_aux(2))
  with f1 f2 show ?thesis by (simp add: build_site_def)
qed

lemma alias_build_ok: "\<exists>st. build_site alias_env alias_nav files = Inr st"
  by (rule build_completes) (simp_all add: alias_env_def alias_nav_def page_def)

text \<open>
  C2: when the build completes, every Page node whose source file exists has an output
  file, the file named by its source path with every \<open>.md\<close> replaced by \<open>.html\<close>; the
  files of the output directory are those it held before, the marker file, the copied
  assets and exactly these output files; each output file holds the text rendered for the
  last existing page that is written to it, so for pages with pairwise different output
  files the text rendered for that very page. The replacement is plain substring
  replacement: it also rewrites an \<open>.md\<close> inside the path.
\<close>

theorem build_output_paths:
  assumes "build_site ev nav files = Inr st"
  shows "(\<forall>tp \<in> set (page_nodes nav). path_exists ev (snd tp) \<longrightarrow>
            (\<exists>txt. site st (output_file ev (str_replace ''.md'' ''.html'' (snd tp))) = Some txt))
       \<and> dom (site st) =
            dom files \<union> {output_file ev ''.nojekyll''} \<union> fst ` set (asset_writes ev)
            \<union> (\<lambda>tp. output_file ev (str_replace ''.md'' ''.html'' (snd tp)))
                ` set (existing_pages ev nav)
       \<and> (\<forall>before tp after.
             existing_pages ev nav = before @ tp # after \<longrightarrow>
             output_file ev (str_replace ''.md'' ''.html'' (snd tp))
               \<notin> (\<lambda>tp. output_file ev (str_replace ''.md'' ''.html'' (snd tp))) ` set after \<longrightarrow>
             site st (output_file ev (str_replace ''.md'' ''.html'' (snd tp)))
               = Some (page_text ev nav tp))
       \<and> (distinct (map (\<lambda>tp. output_file ev (str_replace ''.md'' ''.html'' (snd tp)))
                       (existing_pages ev nav)) \<longrightarrow>
            (\<forall>tp \<in> set (existing_pages ev nav).
               site st (output_file ev (str_replace ''.md'' ''.html'' (snd tp)))
                 = Some (page_text ev nav tp)))
       \<and> str_replace ''.md'' ''.html'' ''v1.md.bak/notes.md'' = ''v1.html.bak/notes.html''"
proof (intro conjI)
  let ?out = "\<lambda>tp. output_file ev (str_replace ''.md'' ''.html'' (snd tp))"
  let ?W = "asset_writes ev @ map (page_write ev nav) (existing_pages ev nav)"
  have s: "site st = write_all ?W (touched ev files)"
    by (rule build_site_Inr(1)[OF assms])
  have keys: "fst ` set (map (page_write ev nav) (existing_pages ev nav))
                = ?out ` set (existing_pages ev nav)"
    by (rule page_write_keys)
  show d: "dom (site st) =
            dom files \<union> {output_file ev ''.nojekyll''} \<union> fst ` set (asset_writes ev)
            \<union> ?out ` set (existing_pages ev nav)"
    unfolding s dom_write_all touched_domain using keys by (simp add: image_Un Un_assoc)
  show "\<forall>tp \<in> set (page_nodes nav). path_exists ev (snd tp) \<longrightarrow>
            (\<exists>txt. site st (?out tp) = Some txt)"
  proof (intro ballI impI)
    fix tp assume "tp \<in> set (page_nodes nav)" "path_exists ev (snd tp)"
    then have "tp \<in> set (existing_pages ev nav)" by (simp add: existing_pages_def)
    then have "?out tp \<in> dom (site st)"
      unfolding d by blast
    then show "\<exists>txt. site st (?out tp) = Some txt"
      by (simp add: dom_def)
  qed
  show last: "\<forall>before tp after.
             existing_pages ev nav = before @ tp # after \<longrightarrow>
             ?out tp \<notin> ?out ` set after \<longrightarrow>
             site st (?out tp) = Some (page_text ev nav tp)"
  proof (intro allI impI)
    fix before tp after
    assume e: "existing_pages ev nav = before @ tp # after"
      and n: "?out tp \<notin> ?out ` set after"
    have w: "?W = (asset_writes ev @ map (page_write ev nav) before)
                   @ (?out tp, page_text ev nav tp) # map (page_write ev nav) after"
      by (simp add: e page_write_def html_path_of_def del: str_replace.simps)
    have "?out tp \<notin> fst ` set (map (page_write ev nav) after)"
      unfolding page_write_keys using n .
    then show "site st (?out tp) = Some (page_text ev nav tp)"
      unfolding s w by (rule write_all_last)
  qed
  show "distinct (map ?out (existing_pages ev nav)) \<longrightarrow>
            (\<forall>tp \<in> set (existing_pages ev nav). site st (?out tp) = Some (page_text ev nav tp))"
  proof (intro impI ballI)
    fix tp
    assume dist: "distinct (map ?out (existing_pages ev nav))"
      and tp: "tp \<in> set (existing_pages ev nav)"
    from tp obtain before after where e: "existing_pages ev nav = before @ tp # after"
      by (auto simp: in_set_conv_decomp)
    from dist have "?out tp \<notin> ?out ` set after"
      by (simp add: e del: str_replace.simps)
    with last e show "site st (?out tp) = Some (page_text ev nav tp)" by blast
  qed
  show "str_replace ''.md'' ''.html'' ''v1.md.bak/notes.md'' = ''v1.html.bak/notes.html''"
    by simp
qed

lemma alias_html_paths:
  "str_replace ''.md'' ''.html'' ''a.md'' = ''a.html''"
  "str_replace ''.md'' ''.html'' ''./a.md'' = ''./a.html''"
  by simp_all

theorem build_output_paths_witness:
  "(\<exists>st. build_site example_env example_nav Map.empty = Inr st
        \<and> dom (site st) = {''.nojekyll'', ''index.html''}
        \<and> site st ''index.html'' = Some (page_text example_env example_nav (Some ''Home'', ''index.md'')))
   \<and> (\<exists>st. build_site alias_env alias_nav Map.empty = Inr st
        \<and> dom (site st) = {''.nojekyll'', ''a.html''}
        \<and> site st ''a.html'' = Some (page_text alias_env alias_nav (Some ''B'', ''./a.md'')))"
proof
  obtain st where b: "build_site example_env example_nav Map.empty = Inr st"
    using example_build_ok by blast
  have e: "existing_pages example_env example_nav = [(Some ''Home'', ''index.md'')]"
    by (simp add: existing_pages_def example_nav_def example_env_def page_def folder_def)
  have a: "asset_writes example_env = []"
    by (simp add: asset_writes_def example_env_def)
  have o: "output_file example_env = (\<lambda>p. p)" by (simp add: example_env_def)
  from build_output_paths[OF b] have
    "dom (site st) = {''.nojekyll'', ''index.html''}"
    "site st ''index.html'' = Some (page_text example_env example_nav (Some ''Home'', ''index.md''))"
    by (simp_all add: e a o html_path_examples insert_commute del: str_replace.simps)
  with b show "\<exists>st. build_site example_env example_nav Map.empty = Inr st
        \<and> dom (site st) = {''.nojekyll'', ''index.html''}
        \<and> site st ''index.html'' = Some (page_text example_env example_nav (Some ''Home'', ''index.md''))"
    by blast
next
  obtain st where b: "build_site alias_env alias_nav Map.empty = Inr st"
    using alias_build_ok by blast
  have e: "existing_pages alias_env alias_nav = [(Some ''A'', ''a.md'')] @ (Some ''B'', ''./a.md'') # []"
    by (simp add: existing_pages_def alias_nav_def alias_env_def page_def)
  have a: "asset_writes alias_env = []"
    by (simp add: asset_writes_def alias_env_def)
  have o: "output_file alias_env ''a.html'' = ''a.html''"
    "output_file alias_env ''./a.html'' = ''a.html''"
    "output_file alias_env ''.nojekyll'' = ''.nojekyll''"
    by (simp_all add: alias_env_def)
  note t = build_output_paths[OF b]
  from t have "dom (site st) = {''.nojekyll'', ''a.html''}"
    by (simp add: e a o alias_html_paths insert_commute del: str_replace.simps)
  moreover from t have "\<forall>before tp after.
             existing_pages alias_env alias_nav = before @ tp # after \<longrightarrow>
             output_file alias_env (str_replace ''.md'' ''.html'' (snd tp))
               \<notin> (\<lambda>tp. output_file alias_env (str_replace ''.md'' ''.html'' (snd tp))) ` set after \<longrightarrow>
             site st (output_file alias_env (str_replace ''.md'' ''.html'' (snd tp)))
               = Some (page_text alias_env alias_nav tp)"
    by (elim conjE)
  from this[rule_format, OF e] have
    "site st ''a.html'' = Some (page_text alias_env alias_nav (Some ''B'', ''./a.md''))"
    by (simp add: o alias_html_paths del: str_replace.simps)
  ultimately show "\<exists>st. build_site alias_env alias_nav Map.empty = Inr st
        \<and> dom (site st) = {''.nojekyll'', ''a.html''}
        \<and> site st ''a.html'' = Some (page_text alias_env alias_nav (Some ''B'', ''./a.md''))"
    using b by blast
qed

text \<open>
  C5: when the build completes, the list of processed files holds exactly the paths of the
  Page nodes, at every nesting level, whose source file exists, and the count the build
  prints is the decimal numeral of the number of these nodes.
\<close>

theorem processed_count_reported:
  assumes "build_site ev nav files = Inr st"
  shows "processed_files st = map snd (filter (\<lambda>tp. path_exists ev (snd tp)) (page_nodes nav))
       \<and> length (processed_files st)
           = length (filter (\<lambda>tp. path_exists ev (snd tp)) (page_nodes nav))
       \<and> (\<exists>progress. stdout st = progress @
            [''\<newline>Build complete! Processed ''
               @ str_of_nat (length (filter (\<lambda>tp. path_exists ev (snd tp)) (page_nodes nav)))
               @ '' files.'',
             ''Output directory: '' @ abs_output_dir ev])
       \<and> digits_value (str_of_nat (length (processed_files st)))
           = length (filter (\<lambda>tp. path_exists ev (snd tp)) (page_nodes nav))"
  using build_site_Inr(2,3)[OF assms]
  by (simp add: existing_pages_def final_lines_def digits_value_str_of_nat del: str_of_nat.simps)

theorem processed_count_reported_witness:
  "\<exists>st progress. build_site example_env example_nav Map.empty = Inr st
        \<and> processed_files st = [''index.md'']
        \<and> stdout st = progress @
             [''\<newline>Build complete! Processed 1 files.'', ''Output directory: /srv/site'']"
proof -
  obtain st where b: "build_site example_env example_nav Map.empty = Inr st"
    using example_build_ok by blast
  have e: "filter (\<lambda>tp. path_exists example_env (snd tp)) (page_nodes example_nav)
             = [(Some ''Home'', ''index.md'')]"
    by (simp add: example_nav_def example_env_def page_def folder_def)
  have o: "abs_output_dir example_env = ''/srv/site''" by (simp add: example_env_def)
  have n: "str_of_nat (Suc 0) = ''1''" by code_simp
  from processed_count_reported[OF b] obtain progress where
    p: "processed_files st = [''index.md'']"
    and s: "stdout st = progress @
             [''\<newline>Build complete! Processed '' @ str_of_nat (Suc 0) @ '' files.'',
              ''Output directory: /srv/site'']"
    by (auto simp: e o simp del: str_of_nat.simps)
  from s have "stdout st = progress @
             [''\<newline>Build complete! Processed 1 files.'', ''Output directory: /srv/site'']"
    by (simp only: n) simp
  with b p show ?thesis by blast
qed



text \<open>
  C8: a second build over the same sources, started on the output directory the first
  build left, ends in the same state: the same files with the same text, the same list of
  processed files and the same lines printed. And two builds over the same sources started
  on different output directories write the same text to every asset and page file. (The
  Markdown library is a function of the text it is given.)
\<close>

theorem rebuild_identical:
  assumes "build_site ev nav files = Inr s1"
  shows "(build_site ev nav (site s1) = Inr s2 \<longrightarrow> s2 = s1)
       \<and> (build_site ev nav files' = Inr s1' \<longrightarrow>
            (\<forall>name \<in> fst ` set (asset_writes ev)
                       \<union> (\<lambda>tp. output_file ev (str_replace ''.md'' ''.html'' (snd tp))) ` set (existing_pages ev nav).
               site s1' name = site s1 name)
            \<and> processed_files s1' = processed_files s1 \<and> stdout s1' = stdout s1)"
proof (intro conjI impI)
  show "s2 = s1" if "build_site ev nav (site s1) = Inr s2"
    using rebuild_same[OF assms that] .
next
  assume b': "build_site ev nav files' = Inr s1'"
  let ?W = "asset_writes ev @ map (page_write ev nav) (existing_pages ev nav)"
  have keys: "fst ` set ?W = fst ` set (asset_writes ev)
                 \<union> (\<lambda>tp. output_file ev (str_replace ''.md'' ''.html'' (snd tp))) ` set (existing_pages ev nav)"
    using page_write_keys[of ev nav "existing_pages ev nav"] by (simp add: image_Un del: str_replace.simps)
  show "\<forall>name \<in> fst ` set (asset_writes ev)
                       \<union> (\<lambda>tp. output_file ev (str_replace ''.md'' ''.html'' (snd tp))) ` set (existing_pages ev nav).
               site s1' name = site s1 name"
  proof
    fix name
    assume "name \<in> fst ` set (asset_writes ev)
                       \<union> (\<lambda>tp. output_file ev (str_replace ''.md'' ''.html'' (snd tp))) ` set (existing_pages ev nav)"
    then have "name \<in> fst ` set ?W" by (simp only: keys)
    then have "name \<in> fst ` set (rev ?W)" by (simp only: set_rev)
    then have "name \<in> dom (map_of (rev ?W))" by (simp only: dom_map_of_conv_image_fst)
    then obtain v where "map_of (rev ?W) name = Some v" by (auto simp only: dom_def)
    then show "site s1' name = site s1 name"
      by (simp add: build_site_Inr(1)[OF assms] build_site_Inr(1)[OF b'] write_all_apply)
  qed
  show "processed_files s1' = processed_files s1"
    by (simp add: build_site_Inr(2)[OF assms] build_site_Inr(2)[OF b'])
  show "stdout s1' = stdout s1"
    by (simp add: build_site_Inr(3)[OF assms] build_site_Inr(3)[OF b'])
qed

theorem rebuild_identical_witness:
  "\<exists>s1 s2. build_site example_env example_nav Map.empty = Inr s1
        \<and> build_site example_env example_nav (site s1) = Inr s2
        \<and> s2 = s1"
proof -
  obtain s1 where b1: "build_site example_env example_nav Map.empty = Inr s1"
    using example_build_ok by blast
  obtain s2 where b2: "build_site example_env example_nav (site s1) = Inr s2"
    using example_build_ok by blast
  from rebuild_identical[OF b1, of s2] b2 have "s2 = s1" by blast
  with b1 b2 show ?thesis by blast
qed

section \<open>The assembly of a page\<close>

lemma str_replace_hit:
  "old \<noteq> [] \<Longrightarrow> str_replace old new (old @ z) = new @ str_replace old new z"
  by (cases old) simp_all

lemma str_replace_skip:
  "old \<noteq> [] \<Longrightarrow> no_overlap old x \<Longrightarrow> str_replace old new (x @ z) = x @ str_replace old new z"
proof (induction x)
  case Nil
  show ?case by simp
next
  case (Cons c x)
  have "\<not> prefix old ((c # x) @ z)"
  proof
    assume "prefix old ((c # x) @ z)"
    moreover have "prefix (c # x) ((c # x) @ z)" by simp
    ultimately have "prefix old (c # x) \<or> prefix (c # x) old" by (rule prefix_same_cases)
    with Cons.prems(2) show False by simp
  qed
  with Cons show ?case by simp
qed

lemma str_replace_none:
  "old \<noteq> [] \<Longrightarrow> no_overlap old x \<Longrightarrow> str_replace old new x = x"
  using str_replace_skip[of old x new "[]"] by simp

lemma no_pair_no_overlap: "no_pair h x \<Longrightarrow> no_overlap (h # h # t) x"
  by (induction h x rule: no_pair.induct) auto

lemma template_split:
  \<open>get_html_template =
     shell_head @ ''{{TITLE}}'' @ shell_after_title @ ''{{BASE_PATH}}'' @ shell_after_css
     @ ''{{BASE_PATH}}'' @ shell_after_home @ ''{{NAVIGATION}}'' @ shell_after_nav
     @ ''{{CONTENT}}'' @ shell_tail\<close>
  by (simp add: get_html_template_def shell_head_def shell_after_title_def shell_after_css_def
      shell_after_home_def shell_after_nav_def shell_tail_def)

lemma shell_no_pair:
  "no_pair CHR ''{'' shell_head"
  "no_pair CHR ''{'' shell_after_title"
  "no_pair CHR ''{'' shell_after_css"
  "no_pair CHR ''{'' shell_after_home"
  "no_pair CHR ''{'' shell_after_nav"
  "no_pair CHR ''{'' shell_tail"
  by (simp_all add: shell_head_def shell_after_title_def shell_after_css_def
      shell_after_home_def shell_after_nav_def shell_tail_def)

lemma skip_plain:
  "no_pair h x \<Longrightarrow> str_replace (h # h # t) new (x @ z) = x @ str_replace (h # h # t) new z"
  by (rule str_replace_skip) (simp_all add: no_pair_no_overlap)

lemma keep_plain: "no_pair h x \<Longrightarrow> str_replace (h # h # t) new x = x"
  by (rule str_replace_none) (simp_all add: no_pair_no_overlap)

lemma skip_other_token:
  \<open>str_replace ''{{TITLE}}'' new (''{{BASE_PATH}}'' @ z) = ''{{BASE_PATH}}'' @ str_replace ''{{TITLE}}'' new z\<close>
  \<open>str_replace ''{{TITLE}}'' new (''{{NAVIGATION}}'' @ z) = ''{{NAVIGATION}}'' @ str_replace ''{{TITLE}}'' new z\<close>
  \<open>str_replace ''{{TITLE}}'' new (''{{CONTENT}}'' @ z) = ''{{CONTENT}}'' @ str_replace ''{{TITLE}}'' new z\<close>
  \<open>str_replace ''{{BASE_PATH}}'' new (''{{NAVIGATION}}'' @ z) = ''{{NAVIGATION}}'' @ str_replace ''{{BASE_PATH}}'' new z\<close>
  \<open>str_replace ''{{BASE_PATH}}'' new (''{{CONTENT}}'' @ z) = ''{{CONTENT}}'' @ str_replace ''{{BASE_PATH}}'' new z\<close>
  \<open>str_replace ''{{NAVIGATION}}'' new (''{{CONTENT}}'' @ z) = ''{{CONTENT}}'' @ str_replace ''{{NAVIGATION}}'' new z\<close>
  by (rule str_replace_skip; simp)+

lemma hit_token:
  \<open>str_replace ''{{TITLE}}'' new (''{{TITLE}}'' @ z) = new @ str_replace ''{{TITLE}}'' new z\<close>
  \<open>str_replace ''{{BASE_PATH}}'' new (''{{BASE_PATH}}'' @ z) = new @ str_replace ''{{BASE_PATH}}'' new z\<close>
  \<open>str_replace ''{{NAVIGATION}}'' new (''{{NAVIGATION}}'' @ z) = new @ str_replace ''{{NAVIGATION}}'' new z\<close>
  \<open>str_replace ''{{CONTENT}}'' new (''{{CONTENT}}'' @ z) = new @ str_replace ''{{CONTENT}}'' new z\<close>
  by (rule str_replace_hit; simp)+

lemma fill_template_shape:
  assumes t: "no_pair CHR ''{'' ttl" and b: "no_pair CHR ''{'' base_path"
    and n: "no_pair CHR ''{'' nav_html"
  shows "fill_template get_html_template ttl base_path nav_html html_content =
           shell_head @ ttl @ shell_after_title @ base_path @ shell_after_css @ base_path
           @ shell_after_home @ nav_html @ shell_after_nav @ html_content @ shell_tail"
proof -
  note skips = shell_no_pair[THEN skip_plain] t[THEN skip_plain] b[THEN skip_plain] n[THEN skip_plain]
  note keeps = shell_no_pair(6)[THEN keep_plain]
  have 1: \<open>str_replace ''{{TITLE}}'' ttl get_html_template =
     shell_head @ ttl @ shell_after_title @ ''{{BASE_PATH}}'' @ shell_after_css
     @ ''{{BASE_PATH}}'' @ shell_after_home @ ''{{NAVIGATION}}'' @ shell_after_nav
     @ ''{{CONTENT}}'' @ shell_tail\<close>
    unfolding template_split by (simp only: skips keeps skip_other_token hit_token)
  have 2: \<open>str_replace ''{{BASE_PATH}}'' base_path (str_replace ''{{TITLE}}'' ttl get_html_template) =
     shell_head @ ttl @ shell_after_title @ base_path @ shell_after_css
     @ base_path @ shell_after_home @ ''{{NAVIGATION}}'' @ shell_after_nav
     @ ''{{CONTENT}}'' @ shell_tail\<close>
    unfolding 1 by (simp only: skips keeps skip_other_token hit_token)
  have 3: \<open>str_replace ''{{NAVIGATION}}'' nav_html
      (str_replace ''{{BASE_PATH}}'' base_path (str_replace ''{{TITLE}}'' ttl get_html_template)) =
     shell_head @ ttl @ shell_after_title @ base_path @ shell_after_css
     @ base_path @ shell_after_home @ nav_html @ shell_after_nav
     @ ''{{CONTENT}}'' @ shell_tail\<close>
    unfolding 2 by (simp only: skips keeps skip_other_token hit_token)
  have 4: \<open>str_replace ''{{CONTENT}}'' html_content
     (str_replace ''{{NAVIGATION}}'' nav_html
      (str_replace ''{{BASE_PATH}}'' base_path (str_replace ''{{TITLE}}'' ttl get_html_template))) =
     shell_head @ ttl @ shell_after_title @ base_path @ shell_after_css
     @ base_path @ shell_after_home @ nav_html @ shell_after_nav
     @ html_content @ shell_tail\<close>
    unfolding 3 by (simp only: skips keeps skip_other_token hit_token)
  show ?thesis
    unfolding fill_template_def Let_def by (rule 4)
qed

lemma str_split_not_Nil: "str_split sep s \<noteq> []"
  by (induction sep s rule: str_split.induct) (auto split: list.splits)

lemma str_join_cons_char: "str_join sep ((c # p) # ps) = c # str_join sep (p # ps)"
  by (cases ps) simp_all

lemma str_join_empty_first: "ps \<noteq> [] \<Longrightarrow> str_join sep ([] # ps) = sep @ str_join sep ps"
  by (cases ps) simp_all

lemma str_replace_join_split:
  "sep \<noteq> [] \<Longrightarrow> str_replace sep new s = str_join new (str_split sep s)"
proof (induction sep s rule: str_split.induct)
  case (1 sep)
  then show ?case by simp
next
  case (2 sep c cs)
  show ?case
  proof (cases "prefix sep (c # cs)")
    case True
    with 2 show ?thesis
      by (simp add: str_join_empty_first str_split_not_Nil)
  next
    case False
    obtain p ps where sp: "str_split sep cs = p # ps"
      using str_split_not_Nil[of sep cs] by (cases "str_split sep cs") auto
    from False 2 show ?thesis
      by (simp add: sp str_join_cons_char)
  qed
qed

lemma title_collision:
  \<open>fill_template get_html_template ''{{CONTENT}}'' ''./'' ''<li>nav</li>'' html_content =
     shell_head @ html_content @ shell_after_title @ ''./'' @ shell_after_css @ ''./''
     @ shell_after_home @ ''<li>nav</li>'' @ shell_after_nav @ html_content @ shell_tail\<close>
proof -
  have b: \<open>no_pair CHR ''{'' ''./''\<close> and n: \<open>no_pair CHR ''{'' ''<li>nav</li>''\<close>
    by simp_all
  note skips = shell_no_pair[THEN skip_plain] b[THEN skip_plain] n[THEN skip_plain]
  note keeps = shell_no_pair(6)[THEN keep_plain]
  have 1: \<open>str_replace ''{{TITLE}}'' ''{{CONTENT}}'' get_html_template =
     shell_head @ ''{{CONTENT}}'' @ shell_after_title @ ''{{BASE_PATH}}'' @ shell_after_css
     @ ''{{BASE_PATH}}'' @ shell_after_home @ ''{{NAVIGATION}}'' @ shell_after_nav
     @ ''{{CONTENT}}'' @ shell_tail\<close>
    unfolding template_split by (simp only: skips keeps skip_other_token hit_token)
  have 2: \<open>str_replace ''{{BASE_PATH}}'' ''./'' (str_replace ''{{TITLE}}'' ''{{CONTENT}}'' get_html_template) =
     shell_head @ ''{{CONTENT}}'' @ shell_after_title @ ''./'' @ shell_after_css
     @ ''./'' @ shell_after_home @ ''{{NAVIGATION}}'' @ shell_after_nav
     @ ''{{CONTENT}}'' @ shell_tail\<close>
    unfolding 1 by (simp only: skips keeps skip_other_token hit_token)
  have 3: \<open>str_replace ''{{NAVIGATION}}'' ''<li>nav</li>''
      (str_replace ''{{BASE_PATH}}'' ''./'' (str_replace ''{{TITLE}}'' ''{{CONTENT}}'' get_html_template)) =
     shell_head @ ''{{CONTENT}}'' @ shell_after_title @ ''./'' @ shell_after_css
     @ ''./'' @ shell_after_home @ ''<li>nav</li>'' @ shell_after_nav
     @ ''{{CONTENT}}'' @ shell_tail\<close>
    unfolding 2 by (simp only: skips keeps skip_other_token hit_token)
  have 4: \<open>str_replace ''{{CONTENT}}'' html_content
     (str_replace ''{{NAVIGATION}}'' ''<li>nav</li>''
      (str_replace ''{{BASE_PATH}}'' ''./'' (str_replace ''{{TITLE}}'' ''{{CONTENT}}'' get_html_template))) =
     shell_head @ html_content @ shell_after_title @ ''./'' @ shell_after_css
     @ ''./'' @ shell_after_home @ ''<li>nav</li>'' @ shell_after_nav
     @ html_content @ shell_tail\<close>
    unfolding 3 by (simp only: skips keeps skip_other_token hit_token)
  show ?thesis
    unfolding fill_template_def Let_def by (rule 4)
qed

text \<open>
  C9, as stated, fails: the content is substituted last and the inserted text is not
  scanned again, so placeholder tokens inside the content stay in the page as they are.
\<close>

theorem content_token_counterexample:
  \<open>fill_template get_html_template ''Guide'' ''./'' ''<li>nav</li>''
       ''<p>{{TITLE}} {{BASE_PATH}} {{NAVIGATION}} {{CONTENT}}</p>'' =
     shell_head @ ''Guide'' @ shell_after_title @ ''./'' @ shell_after_css @ ''./''
     @ shell_after_home @ ''<li>nav</li>'' @ shell_after_nav
     @ ''<p>{{TITLE}} {{BASE_PATH}} {{NAVIGATION}} {{CONTENT}}</p>'' @ shell_tail\<close>
  by (rule fill_template_shape) simp_all

text \<open>
  C9, amended: the page is the text of the first three substitutions, split at the content
  token, with the content put verbatim between the pieces: a placeholder token inside the
  content is never substituted. The collision that the literal replacement does not guard
  against goes the other way: a token of a later pass inside an earlier value is
  substituted, as \<open>{{CONTENT}}\<close> as a title, which is replaced by the content.
\<close>

theorem content_not_rescanned:
  \<open>fill_template template ttl base_path nav_html html_content =
     str_join html_content
       (str_split ''{{CONTENT}}''
          (str_replace ''{{NAVIGATION}}'' nav_html
             (str_replace ''{{BASE_PATH}}'' base_path (str_replace ''{{TITLE}}'' ttl template))))
   \<and> fill_template get_html_template ''{{CONTENT}}'' ''./'' ''<li>nav</li>'' html_content =
       shell_head @ html_content @ shell_after_title @ ''./'' @ shell_after_css @ ''./''
       @ shell_after_home @ ''<li>nav</li>'' @ shell_after_nav @ html_content @ shell_tail\<close>
proof
  show \<open>fill_template template ttl base_path nav_html html_content =
     str_join html_content
       (str_split ''{{CONTENT}}''
          (str_replace ''{{NAVIGATION}}'' nav_html
             (str_replace ''{{BASE_PATH}}'' base_path (str_replace ''{{TITLE}}'' ttl template))))\<close>
    unfolding fill_template_def Let_def by (rule str_replace_join_split) simp
  show \<open>fill_template get_html_template ''{{CONTENT}}'' ''./'' ''<li>nav</li>'' html_content =
       shell_head @ html_content @ shell_after_title @ ''./'' @ shell_after_css @ ''./''
       @ shell_after_home @ ''<li>nav</li>'' @ shell_after_nav @ html_content @ shell_tail\<close>
    by (rule title_collision)
qed

text \<open>
  C1: the page text is the shell template with the title token replaced first, then the
  base-path token, then the navigation token, then the content token, each by one literal
  \<open>replace\<close> (which rewrites every occurrence of its token: the template holds the
  base-path token twice). For values without \<open>{{\<close> the page is the template text with
  the four values in the places of the tokens; and this is the text \<open>process_file\<close>
  writes to the output path.
\<close>

theorem page_assembly:
  \<open>fill_template template ttl base_path nav_html html_content =
     str_replace ''{{CONTENT}}'' html_content
       (str_replace ''{{NAVIGATION}}'' nav_html
          (str_replace ''{{BASE_PATH}}'' base_path (str_replace ''{{TITLE}}'' ttl template)))
   \<and> (no_pair CHR ''{'' ttl \<longrightarrow> no_pair CHR ''{'' base_path \<longrightarrow> no_pair CHR ''{'' nav_html \<longrightarrow>
        fill_template get_html_template ttl base_path nav_html html_content =
          shell_head @ ttl @ shell_after_title @ base_path @ shell_after_css @ base_path
          @ shell_after_home @ nav_html @ shell_after_nav @ html_content @ shell_tail)
   \<and> (process_file ev nav st md_path html_path ttl = Inr st' \<longrightarrow>
        (\<exists>md_content nav_markup.
           read_text ev md_path = Some md_content
           \<and> generate_nav_html nav html_path 0 (base_path_of html_path) = Inr nav_markup
           \<and> site st' (output_file ev html_path) =
               Some (fill_template get_html_template ttl (base_path_of html_path) nav_markup
                       (convert_md_to_html (markdown ev) md_content))))\<close>
proof (intro conjI impI)
  show \<open>fill_template template ttl base_path nav_html html_content =
     str_replace ''{{CONTENT}}'' html_content
       (str_replace ''{{NAVIGATION}}'' nav_html
          (str_replace ''{{BASE_PATH}}'' base_path (str_replace ''{{TITLE}}'' ttl template)))\<close>
    by (simp only: fill_template_def Let_def)
  show "fill_template get_html_template ttl base_path nav_html html_content =
          shell_head @ ttl @ shell_after_title @ base_path @ shell_after_css @ base_path
          @ shell_after_home @ nav_html @ shell_after_nav @ html_content @ shell_tail"
    if "no_pair CHR ''{'' ttl" "no_pair CHR ''{'' base_path" "no_pair CHR ''{'' nav_html"
    using that by (rule fill_template_shape)
  show "\<exists>md_content nav_markup.
           read_text ev md_path = Some md_content
           \<and> generate_nav_html nav html_path 0 (base_path_of html_path) = Inr nav_markup
           \<and> site st' (output_file ev html_path) =
               Some (fill_template get_html_template ttl (base_path_of html_path) nav_markup
                       (convert_md_to_html (markdown ev) md_content))"
    if "process_file ev nav st md_path html_path ttl = Inr st'"
    using that
    by (auto simp: process_file_def Let_def split: option.splits sum.splits if_splits
        simp del: generate_nav_html.simps)
qed

theorem page_assembly_witness:
  \<open>no_pair CHR ''{'' ''Home'' \<and> no_pair CHR ''{'' ''./'' \<and> no_pair CHR ''{'' ''<li>nav</li>''
   \<and> fill_template get_html_template ''Home'' ''./'' ''<li>nav</li>'' ''<h1>Home</h1>'' =
       shell_head @ ''Home'' @ shell_after_title @ ''./'' @ shell_after_css @ ''./''
       @ shell_after_home @ ''<li>nav</li>'' @ shell_after_nav @ ''<h1>Home</h1>'' @ shell_tail
   \<and> (\<exists>st' nav_markup html_content.
         process_file example_env example_nav
           \<lparr>site = Map.empty, processed_files = [], stdout = []\<rparr>
           ''index.md'' ''index.html'' ''Home'' = Inr st'
         \<and> site st' ''index.html'' =
             Some (fill_template get_html_template ''Home'' ''./'' nav_markup html_content))\<close>
proof -
  let ?s0 = "\<lparr>site = Map.empty, processed_files = [], stdout = []\<rparr>"
  have np: \<open>no_pair CHR ''{'' ''Home''\<close> \<open>no_pair CHR ''{'' ''./''\<close>
    \<open>no_pair CHR ''{'' ''<li>nav</li>''\<close>
    by simp_all
  obtain st' where p: "process_file example_env example_nav ?s0
      ''index.md'' ''index.html'' ''Home'' = Inr st'"
    using example_process_file_ok by blast
  have b: "base_path_of ''index.html'' = ''./''"
    by (simp add: base_path_of_def Let_def)
  note a = page_assembly[of get_html_template "''Home''" "''./''" "''<li>nav</li>''"
      "''<h1>Home</h1>''" example_env example_nav ?s0 "''index.md''" "''index.html''" st']
  from a np have 1: \<open>fill_template get_html_template ''Home'' ''./'' ''<li>nav</li>'' ''<h1>Home</h1>'' =
       shell_head @ ''Home'' @ shell_after_title @ ''./'' @ shell_after_css @ ''./''
       @ shell_after_home @ ''<li>nav</li>'' @ shell_after_nav @ ''<h1>Home</h1>'' @ shell_tail\<close>
    by blast
  have o: "output_file example_env ''index.html'' = ''index.html''"
    by (simp add: example_env_def)
  from a p obtain md_content nav_markup where
    "site st' (output_file example_env ''index.html'') =
       Some (fill_template get_html_template ''Home'' (base_path_of ''index.html'') nav_markup
               (convert_md_to_html (markdown example_env) md_content))"
    by blast
  then have "site st' ''index.html'' =
       Some (fill_template get_html_template ''Home'' ''./'' nav_markup
               (convert_md_to_html (markdown example_env) md_content))"
    by (simp only: b o)
  with p have 2: "\<exists>st' nav_markup html_content.
         process_file example_env example_nav ?s0 ''index.md'' ''index.html'' ''Home'' = Inr st'
         \<and> site st' ''index.html'' =
             Some (fill_template get_html_template ''Home'' ''./'' nav_markup html_content)"
    by blast
  from np 1 2 show ?thesis by blast
qed

section \<open>The diagram pre-pass of the Markdown renderer\<close>





















end
